theory Spec2Isabelle
  imports Main "HOL-Library.Char_ord" "HOL-Library.List_Lexorder" "HOL-Library.AList"
begin


section \<open>Python values and library functions used by the EDXML SDK\<close>

text \<open>
  Python text is modelled as \<^typ>\<open>string\<close>: a list of code points below 256. Comparison of
  two strings (\<open><\<close>, \<open>min\<close>, \<open>max\<close>, \<open>sorted\<close>) is Python's: lexicographic on
  code points, a proper prefix being smaller.

  Every exception of the source is a value of \<open>error\<close>. \<open>EDXMLError\<close> is the exception
  raised by \<open>EDXMLBase.Error\<close>; its argument names the call site and the names formatted into
  the message.
\<close>

datatype edxml_message =
    MergeNotUnique string
  | UnknownEventType string
  | NoSuchProperty string string
  | InvalidHashlink string
  | InvalidIP string
  | InvalidBoolean string
  | InvalidEnum string
  | InvalidDataType string
  | StringTooLong string string
  | InvalidValueInProperty string string string
  | AttributeMismatch string string string
  | MandatoryAttributeAdded string string string
  | NonDefaultAttributeAdded string string string
  | AttributeAddedWithoutDefault string string string
  | MandatoryAttributeRemoved string string string
  | NonDefaultAttributeRemoved string string string
  | AttributeRemovedWithoutDefault string string string
  | LacksMandatoryAttribute string string
  | AttributeTooLong string string string
  | AttributeInvalid string string string
  | UnknownAttributes string "string list"
  | InvalidPropertyMap string
  | InvalidTimestamp string string
  | NegativeUnsigned string string
  | InvalidHexadecimal string string
  | InvalidNumber string string
  | BinstringTooLong string string
  | NormalizeInvalidIP string

datatype error =
    EDXMLError edxml_message
  | KeyError string
  | ValueError
  | IndexError
  | TypeError
  | UnicodeEncodeError
  | LibraryError

type_synonym 'a result = "error + 'a"

definition bind_result :: "'a result \<Rightarrow> ('a \<Rightarrow> 'b result) \<Rightarrow> 'b result" where
  "bind_result r f = (case r of Inl e \<Rightarrow> Inl e | Inr v \<Rightarrow> f v)"

text \<open>Subscription \<open>d[k]\<close> of a dictionary: \<open>KeyError\<close> on a missing key.\<close>

definition subscript :: "(string \<rightharpoonup> 'v) \<Rightarrow> string \<Rightarrow> 'v result" where
  "subscript d k = (case d k of None \<Rightarrow> Inl (KeyError k) | Some v \<Rightarrow> Inr v)"

text \<open>\<open>s.split(sep)\<close> for a one-character separator: never empty, \<open>''.split(':') == ['']\<close>.\<close>

fun py_split :: "char \<Rightarrow> string \<Rightarrow> string list" where
  "py_split sep [] = [[]]"
| "py_split sep (c # cs) =
     (if c = sep then [] # py_split sep cs
      else (case py_split sep cs of
              [] \<Rightarrow> [[c]]
            | w # ws \<Rightarrow> (c # w) # ws))"

text \<open>\<open>xs[i]\<close> on a list: \<open>IndexError\<close> out of range (only non-negative indices occur).\<close>

definition index :: "'a list \<Rightarrow> nat \<Rightarrow> 'a result" where
  "index xs i = (if i < length xs then Inr (xs ! i) else Inl IndexError)"

text \<open>
  \<open>int(s)\<close> on a string: surrounding whitespace is dropped, an optional sign and then at least
  one decimal digit must remain; anything else is a \<open>ValueError\<close>.
\<close>

definition is_space :: "char \<Rightarrow> bool" where
  "is_space c = (let n = (of_char c :: nat) in
     (9 \<le> n \<and> n \<le> 13) \<or> (28 \<le> n \<and> n \<le> 32) \<or> n = 133 \<or> n = 160)"

definition is_digit :: "char \<Rightarrow> bool" where
  "is_digit c = (let n = (of_char c :: nat) in 48 \<le> n \<and> n \<le> 57)"

definition py_strip :: "string \<Rightarrow> string" where
  "py_strip s = rev (dropWhile is_space (rev (dropWhile is_space s)))"

definition digits_value :: "string \<Rightarrow> nat" where
  "digits_value ds = foldl (\<lambda>a c. 10 * a + (of_char c - 48)) 0 ds"

definition parse_digits :: "string \<Rightarrow> nat result" where
  "parse_digits ds =
     (if ds \<noteq> [] \<and> list_all is_digit ds then Inr (digits_value ds) else Inl ValueError)"

definition py_int :: "string \<Rightarrow> int result" where
  "py_int s =
     (case py_strip s of
        [] \<Rightarrow> Inl ValueError
      | c # cs \<Rightarrow>
          if c = CHR ''-'' then bind_result (parse_digits cs) (\<lambda>n. Inr (- int n))
          else if c = CHR ''+'' then bind_result (parse_digits cs) (\<lambda>n. Inr (int n))
          else bind_result (parse_digits (c # cs)) (\<lambda>n. Inr (int n)))"

text \<open>\<open>str(n)\<close> and \<open>'%d' % n\<close> of an integer: decimal digits, a minus sign when negative.\<close>

function str_nat :: "nat \<Rightarrow> string" where
  "str_nat n =
     (if n < 10 then [char_of (48 + n)]
      else str_nat (n div 10) @ [char_of (48 + n mod 10)])"
  by pat_completeness auto
termination
  by (relation "measure id") auto

declare str_nat.simps [simp del]

definition str_int :: "int \<Rightarrow> string" where
  "str_int i = (if i < 0 then CHR ''-'' # str_nat (nat (- i)) else str_nat (nat i))"

text \<open>
  \<open>str(u)\<close> of a text value: the ASCII codec, \<open>UnicodeEncodeError\<close> on a code point
  above 127.
\<close>

definition py_str :: "string \<Rightarrow> string result" where
  "py_str s = (if list_all (\<lambda>c. (of_char c :: nat) < 128) s then Inr s else Inl UnicodeEncodeError)"

text \<open>
  Two comparisons of Python 2 whose result does not depend on the operands: a number is
  smaller than every string, so \<open>Value < 0\<close> is false for each string \<open>Value\<close> (and
  \<open>s > 0\<close> is true, \<open>n > s\<close> false); and neither a match object nor \<open>None\<close> is equal to
  \<open>False\<close>, so \<open>re.match(p, s) == False\<close> is false.
\<close>

definition string_less_int :: "string \<Rightarrow> int \<Rightarrow> bool" where
  "string_less_int s n = False"

definition string_greater_int :: "string \<Rightarrow> int \<Rightarrow> bool" where
  "string_greater_int s n = True"

definition int_greater_string :: "int \<Rightarrow> string \<Rightarrow> bool" where
  "int_greater_string n s = False"

definition equals_False :: "string option \<Rightarrow> bool" where
  "equals_False m = False"

text \<open>
  What the model takes from the Python run time without fixing it: the order in which a set
  is iterated, and the arithmetic of \<open>float\<close> and \<open>decimal.Decimal\<close> (ordering and
  printing of binary and decimal floating point numbers). A theorem about a run time \<open>rt\<close>
  holds for each choice of these functions.
  \<^item> \<open>set_iter S\<close>: the elements of \<open>S\<close> in the order \<open>for x in S\<close> visits them;
  \<^item> \<open>float_extreme least src tgt\<close>: \<open>str(min(V))\<close> (\<open>max\<close> when \<open>least\<close> is false) where
    \<open>V\<close> holds \<open>float(v)\<close> for every \<open>v\<close> of \<open>src\<close>, then of \<open>tgt\<close>;
  \<^item> \<open>decimal_extreme\<close>: the same with \<open>Decimal(v)\<close>;
  \<^item> \<open>format_decimal p v\<close>: \<open>('%.' + p + 'f') % Decimal(v)\<close>;
  \<^item> \<open>format_float v\<close>: \<open>'%f' % float(v)\<close>, for a string \<open>v\<close> that \<open>float\<close> accepts.
  A result \<open>None\<close> stands for an exception of the library (\<open>ValueError\<close>,
  \<open>decimal.InvalidOperation\<close>, ...), which the model reports as \<open>LibraryError\<close>.
  Which strings \<open>float\<close> accepts, and which strings the codec \<open>hex\<close> decodes, is a matter
  of their syntax and is defined below (\<open>float_literal\<close>, \<open>hex_decodes\<close>).
\<close>

record py_runtime =
  set_iter :: "string set \<Rightarrow> string list"
  float_extreme :: "bool \<Rightarrow> string set \<Rightarrow> string set \<Rightarrow> string option"
  decimal_extreme :: "bool \<Rightarrow> string set \<Rightarrow> string set \<Rightarrow> string option"
  format_decimal :: "string \<Rightarrow> string \<Rightarrow> string option"
  format_float :: "string \<Rightarrow> string option"

definition library :: "'a option \<Rightarrow> 'a result" where
  "library r = (case r of None \<Rightarrow> Inl LibraryError | Some v \<Rightarrow> Inr v)"


text \<open>
  \<open>u.lower()\<close> on text with code points below 256: the capital letters \<open>A\<close> to \<open>Z\<close> and the
  capital letters of Latin-1 (\<open>0xC0\<close> to \<open>0xDE\<close> but the multiplication sign \<open>0xD7\<close>) move up
  by 32.
\<close>

definition lower_char :: "char \<Rightarrow> char" where
  "lower_char c = (let n = (of_char c :: nat) in
     if (65 \<le> n \<and> n \<le> 90) \<or> (192 \<le> n \<and> n \<le> 222 \<and> n \<noteq> 215) then char_of (n + 32) else c)"

definition py_lower :: "string \<Rightarrow> string" where
  "py_lower s = map lower_char s"

text \<open>\<open>sep.join(xs)\<close>.\<close>

fun py_join :: "string \<Rightarrow> string list \<Rightarrow> string" where
  "py_join sep [] = []"
| "py_join sep [x] = x"
| "py_join sep (x # y # ys) = x @ sep @ py_join sep (y # ys)"

text \<open>\<open>u.encode('utf-8')\<close> on text with code points below 256: one or two bytes each.\<close>

definition utf8_char :: "char \<Rightarrow> string" where
  "utf8_char c = (let n = (of_char c :: nat) in
     if n < 128 then [c] else [char_of (192 + n div 64), char_of (128 + n mod 64)])"

definition utf8_encode :: "string \<Rightarrow> string" where
  "utf8_encode s = concat (map utf8_char s)"

subsection \<open>Regular expressions\<close>

text \<open>
  The patterns of the source are written with the constructors below, one for each
  construct that occurs in them: a bracket expression (a list of ranges), the dot (any
  character but a newline), a literal word, sequence, alternative, \<open>*\<close>, and \<open>$\<close> (the end
  of the string, or the position before a newline that ends the string).
  \<open>remainders r s\<close> lists what can be left of \<open>s\<close> after \<open>r\<close> has matched at its start.
  \<open>re.match\<close> tries the pattern at the start of the string only, where a leading \<open>^\<close>
  holds, so \<open>^\<close> is not written; the result is a match object, or \<open>None\<close>.
\<close>

datatype regex =
    Class "(char \<times> char) list"
  | AnyChar
  | Literal string
  | Seq regex regex
  | Alt regex regex
  | Star regex
  | EndOfString

fun star_remainders :: "(string \<Rightarrow> string list) \<Rightarrow> nat \<Rightarrow> string \<Rightarrow> string list" where
  "star_remainders f 0 s = [s]"
| "star_remainders f (Suc n) s =
     s # concat (map (star_remainders f n) (filter (\<lambda>t. length t < length s) (f s)))"

fun remainders :: "regex \<Rightarrow> string \<Rightarrow> string list" where
  "remainders (Class ranges) s =
     (case s of [] \<Rightarrow> []
      | c # cs \<Rightarrow> if list_ex (\<lambda>(lo, hi). lo \<le> c \<and> c \<le> hi) ranges then [cs] else [])"
| "remainders AnyChar s =
     (case s of [] \<Rightarrow> [] | c # cs \<Rightarrow> if c \<noteq> CHR 0x0A then [cs] else [])"
| "remainders (Literal w) s = (if take (length w) s = w then [drop (length w) s] else [])"
| "remainders (Seq a b) s = concat (map (remainders b) (remainders a s))"
| "remainders (Alt a b) s = remainders a s @ remainders b s"
| "remainders (Star a) s = star_remainders (remainders a) (length s) s"
| "remainders EndOfString s = (if s = [] \<or> s = [CHR 0x0A] then [s] else [])"

definition Plus :: "regex \<Rightarrow> regex" where
  "Plus r = Seq r (Star r)"

definition Opt :: "regex \<Rightarrow> regex" where
  "Opt r = Alt r (Literal [])"

fun Repeat :: "nat \<Rightarrow> regex \<Rightarrow> regex" where
  "Repeat 0 r = Literal []"
| "Repeat (Suc n) r = Seq r (Repeat n r)"

fun Alts :: "regex list \<Rightarrow> regex" where
  "Alts [] = Class []"
| "Alts [r] = r"
| "Alts (r # rs) = Alt r (Alts rs)"

fun Seqs :: "regex list \<Rightarrow> regex" where
  "Seqs [] = Literal []"
| "Seqs [r] = r"
| "Seqs (r # rs) = Seq r (Seqs rs)"

definition re_match :: "regex \<Rightarrow> string \<Rightarrow> string option" where
  "re_match r s =
     (case remainders r s of [] \<Rightarrow> None | t # ts \<Rightarrow> Some (take (length s - length t) s))"

definition digit :: regex where
  "digit = Class [(CHR ''0'', CHR ''9'')]"

text \<open>The patterns compiled in \<open>EDXMLBase.__init__\<close>.\<close>

definition HashlinkPattern :: regex where
  \<comment> \<open>\<open>^[0-9a-zA-Z]{40}$\<close>\<close>
  "HashlinkPattern =
     Seq (Repeat 40 (Class [(CHR ''0'', CHR ''9''), (CHR ''a'', CHR ''z''), (CHR ''A'', CHR ''Z'')]))
       EndOfString"

definition StringDataTypePattern :: regex where
  \<comment> \<open>\<open>string:[0-9]+:((cs)|(ci))(:[ru]+)?\<close>\<close>
  "StringDataTypePattern =
     Seqs [Literal ''string:'', Plus digit, Literal '':'', Alt (Literal ''cs'') (Literal ''ci''),
       Opt (Seq (Literal '':'') (Plus (Class [(CHR ''r'', CHR ''r''), (CHR ''u'', CHR ''u'')])))]"

definition BinstringDataTypePattern :: regex where
  \<comment> \<open>\<open>binstring:[0-9]+(:r)?\<close>\<close>
  "BinstringDataTypePattern = Seqs [Literal ''binstring:'', Plus digit, Opt (Literal '':r'')]"

subsection \<open>The strings that float accepts and that the hex codec decodes\<close>

text \<open>
  \<open>float(s)\<close> drops surrounding whitespace and then wants the whole of what remains to be
  an optional sign followed by a decimal number (digits with an optional dot, or a dot and
  digits, then an optional exponent \<open>e\<close> with optional sign and digits), or by \<open>inf\<close>,
  \<open>infinity\<close> or \<open>nan\<close> in any mixture of cases; anything else is a \<open>ValueError\<close>.
\<close>

definition sign :: regex where
  "sign = Opt (Class [(CHR ''+'', CHR ''+''), (CHR ''-'', CHR ''-'')])"

definition letter :: "char \<Rightarrow> char \<Rightarrow> regex" where
  "letter small capital = Class [(small, small), (capital, capital)]"

definition FloatLiteral :: regex where
  "FloatLiteral =
     Seq sign
       (Alts [
          Seq (Alt (Seqs [Plus digit, Opt (Seq (Literal ''.'') (Star digit))])
                   (Seq (Literal ''.'') (Plus digit)))
              (Opt (Seqs [letter CHR ''e'' CHR ''E'', sign, Plus digit])),
          Seqs [letter CHR ''i'' CHR ''I'', letter CHR ''n'' CHR ''N'', letter CHR ''f'' CHR ''F'',
            Opt (Seqs [letter CHR ''i'' CHR ''I'', letter CHR ''n'' CHR ''N'',
              letter CHR ''i'' CHR ''I'', letter CHR ''t'' CHR ''T'', letter CHR ''y'' CHR ''Y''])],
          Seqs [letter CHR ''n'' CHR ''N'', letter CHR ''a'' CHR ''A'', letter CHR ''n'' CHR ''N'']])"

definition float_literal :: "string \<Rightarrow> bool" where
  "float_literal s = ([] \<in> set (remainders FloatLiteral (py_strip s)))"

text \<open>
  \<open>s.decode("hex")\<close> returns for an even number of hexadecimal digits of either case and
  raises for every other string.
\<close>

definition is_hex_digit :: "char \<Rightarrow> bool" where
  "is_hex_digit c =
     ((CHR ''0'' \<le> c \<and> c \<le> CHR ''9'') \<or> (CHR ''a'' \<le> c \<and> c \<le> CHR ''f'')
      \<or> (CHR ''A'' \<le> c \<and> c \<le> CHR ''F''))"

definition hex_decodes :: "string \<Rightarrow> bool" where
  "hex_decodes s = (even (length s) \<and> list_all is_hex_digit s)"


subsection \<open>hashlib.sha1\<close>

text \<open>
  \<open>hashlib.sha1(m).hexdigest()\<close> is the Secure Hash Algorithm SHA-1 of FIPS 180 on the
  bytes of \<open>m\<close>, printed as 40 lowercase hexadecimal digits. The message is padded with the
  bit 1, zeros and its length in bits as a 64-bit number, and consumed in blocks of 64
  bytes; each block is expanded to eighty 32-bit words and run through eighty rounds.
  A 32-bit word is an integer from 0 to \<open>2\<^sup>3\<^sup>2 - 1\<close>, and the wrap-around of every
  addition and rotation is written out.
\<close>

unbundle bit_operations_syntax

definition add32 :: "int \<Rightarrow> int \<Rightarrow> int" where
  "add32 a b = (a + b) mod 4294967296"

definition not32 :: "int \<Rightarrow> int" where
  "not32 a = 4294967295 - a"

definition rotl :: "nat \<Rightarrow> int \<Rightarrow> int" where
  "rotl n w = (w * 2 ^ n) mod 4294967296 + w div 2 ^ (32 - n)"

definition be_bytes :: "nat \<Rightarrow> int \<Rightarrow> int list" where
  "be_bytes k n = map (\<lambda>i. (n div 256 ^ i) mod 256) (rev [0..<k])"

definition sha1_pad :: "int list \<Rightarrow> int list" where
  "sha1_pad m =
     m @ [128] @ replicate ((55 + 64 - length m mod 64) mod 64) 0
       @ be_bytes 8 (8 * int (length m))"

fun chunks :: "nat \<Rightarrow> 'a list \<Rightarrow> 'a list list" where
  "chunks 0 xs = []"
| "chunks (Suc n) xs =
     (if length xs \<le> Suc n then [xs] else take (Suc n) xs # chunks (Suc n) (drop (Suc n) xs))"

definition word_of_bytes :: "int list \<Rightarrow> int" where
  "word_of_bytes bs = foldl (\<lambda>a b. 256 * a + b) 0 bs"

text \<open>The message schedule, newest word first: \<open>w\<^sub>t = rotl 1 (w\<^sub>t\<^sub>-\<^sub>3 XOR w\<^sub>t\<^sub>-\<^sub>8 XOR w\<^sub>t\<^sub>-\<^sub>1\<^sub>4 XOR w\<^sub>t\<^sub>-\<^sub>1\<^sub>6)\<close>.\<close>

fun schedule :: "nat \<Rightarrow> int list \<Rightarrow> int list" where
  "schedule 0 ws = ws"
| "schedule (Suc n) ws =
     schedule n (rotl 1 (ws ! 2 XOR ws ! 7 XOR ws ! 13 XOR ws ! 15) # ws)"

definition sha1_f :: "nat \<Rightarrow> int \<Rightarrow> int \<Rightarrow> int \<Rightarrow> int" where
  "sha1_f t b c d =
     (if t < 20 then (b AND c) OR (not32 b AND d)
      else if t < 40 then b XOR c XOR d
      else if t < 60 then (b AND c) OR (b AND d) OR (c AND d)
      else b XOR c XOR d)"

definition sha1_k :: "nat \<Rightarrow> int" where
  "sha1_k t =
     (if t < 20 then 0x5A827999 else if t < 40 then 0x6ED9EBA1
      else if t < 60 then 0x8F1BBCDC else 0xCA62C1D6)"

type_synonym sha1_state = "int \<times> int \<times> int \<times> int \<times> int"

fun sha1_rounds :: "nat \<Rightarrow> int list \<Rightarrow> sha1_state \<Rightarrow> sha1_state" where
  "sha1_rounds t [] s = s"
| "sha1_rounds t (w # ws) (a, b, c, d, e) =
     sha1_rounds (Suc t) ws
       (add32 (add32 (add32 (add32 (rotl 5 a) (sha1_f t b c d)) e) (sha1_k t)) w,
        a, rotl 30 b, c, d)"

definition sha1_block :: "sha1_state \<Rightarrow> int list \<Rightarrow> sha1_state" where
  "sha1_block h block =
     (case h of (h0, h1, h2, h3, h4) \<Rightarrow>
        (case sha1_rounds 0 (rev (schedule 64 (rev (map word_of_bytes (chunks 4 block))))) h of
           (a, b, c, d, e) \<Rightarrow> (add32 h0 a, add32 h1 b, add32 h2 c, add32 h3 d, add32 h4 e)))"

definition sha1_init :: sha1_state where
  "sha1_init = (0x67452301, 0xEFCDAB89, 0x98BADCFE, 0x10325476, 0xC3D2E1F0)"

definition hex_digit :: "int \<Rightarrow> char" where
  "hex_digit n = (if n < 10 then char_of (48 + n) else char_of (87 + n))"

definition hex32 :: "int \<Rightarrow> string" where
  "hex32 w = map (\<lambda>i. hex_digit ((w div 16 ^ i) mod 16)) (rev [0..<8])"

definition sha1_hexdigest :: "string \<Rightarrow> string" where
  "sha1_hexdigest m =
     (case foldl sha1_block sha1_init (chunks 64 (sha1_pad (map of_char m))) of
        (h0, h1, h2, h3, h4) \<Rightarrow> hex32 h0 @ hex32 h1 @ hex32 h2 @ hex32 h3 @ hex32 h4)"


section \<open>The schema registry: class EDXMLDefinitions\<close>

text \<open>
  The attributes of an XML tag are a dictionary from attribute names to values, modelled as
  an association list with one pair for each key; \<open>map_of\<close> looks a key up.
\<close>

type_synonym attrs = "(string \<times> string) list"

definition keys :: "attrs \<Rightarrow> string list" where
  "keys a = map fst a"

definition attr :: "attrs \<Rightarrow> string \<Rightarrow> string result" where
  "attr a k = subscript (map_of a) k"

subsection \<open>The attribute grammar\<close>

text \<open>The validation patterns compiled in \<open>EDXMLDefinitions.__init__\<close>.\<close>

definition SimpleNamePattern :: regex where
  \<comment> \<open>\<open>^[a-z0-9-]*$\<close>\<close>
  "SimpleNamePattern =
     Seq (Star (Class [(CHR ''a'', CHR ''z''), (CHR ''0'', CHR ''9''), (CHR ''-'', CHR ''-'')]))
       EndOfString"

definition display_char :: regex where
  "display_char =
     Class [(CHR '' '', CHR '' ''), (CHR ''a'', CHR ''z''), (CHR ''A'', CHR ''Z''), (CHR ''0'', CHR ''9'')]"

definition DisplayNamePattern :: regex where
  \<comment> \<open>\<open>^[ a-zA-Z0-9]+/[ a-zA-Z0-9]+$\<close>\<close>
  "DisplayNamePattern = Seqs [Plus display_char, Literal ''/'', Plus display_char, EndOfString]"

definition TrueFalsePattern :: regex where
  \<comment> \<open>\<open>^(true)|(false)$\<close>: the anchors bind tighter than the bar\<close>
  "TrueFalsePattern = Alt (Literal ''true'') (Seq (Literal ''false'') EndOfString)"

definition DecimalPattern :: regex where
  \<comment> \<open>\<open>^[0-9.]+$\<close>\<close>
  "DecimalPattern = Seq (Plus (Class [(CHR ''0'', CHR ''9''), (CHR ''.'', CHR ''.'')])) EndOfString"

definition SourceDatePattern :: regex where
  \<comment> \<open>\<open>^[0-9]{8}$\<close>\<close>
  "SourceDatePattern = Seq (Repeat 8 digit) EndOfString"

definition MergeOptions :: regex where
  \<comment> \<open>\<open>^(drop)|(add)|(replace)|(min)|(max)|(match)$\<close>\<close>
  "MergeOptions =
     Alts [Literal ''drop'', Literal ''add'', Literal ''replace'', Literal ''min'', Literal ''max'',
       Seq (Literal ''match'') EndOfString]"

definition RelationTypePattern :: regex where
  \<comment> \<open>\<open>^(intra|inter|parent|child|other):.+\<close>\<close>
  "RelationTypePattern =
     Seqs [Alts [Literal ''intra'', Literal ''inter'', Literal ''parent'', Literal ''child'',
       Literal ''other''], Literal '':'', Plus AnyChar]"

definition FuzzyMatchingPattern :: regex where
  \<comment> \<open>\<open>^(none)|(phonetic)|(\[[0-9]{1,2}:\])|(\[:[0-9]{1,2}\])$\<close>\<close>
  "FuzzyMatchingPattern =
     Alts [Literal ''none'', Literal ''phonetic'',
       Seqs [Literal ''['', digit, Opt digit, Literal '':]''],
       Seqs [Literal ''[:'', digit, Opt digit, Literal '']'', EndOfString]]"

definition DataTypePattern :: regex where
  \<comment> \<open>\<open>^(boolean)|(timestamp)|(ip)|(hashlink)|((number:(...))|...|(binstring:(...)))$\<close>\<close>
  "DataTypePattern =
     Alts [Literal ''boolean'', Literal ''timestamp'', Literal ''ip'', Literal ''hashlink'',
       Seq (Alts [
           Seqs [Literal ''number:'',
             Alts [Seq (Opt (Alts [Literal ''tiny'', Literal ''small'', Literal ''medium'',
                      Literal ''big''])) (Literal ''int''),
                   Literal ''float'', Literal ''double''],
             Opt (Literal '':signed'')],
           Seqs [Literal ''number:decimal:'', Plus digit, Literal '':'', Plus digit,
             Opt (Literal '':signed'')],
           Seqs [Literal ''number:hex:'', Plus digit,
             Opt (Seqs [Literal '':'', Plus digit, Literal '':'', AnyChar])],
           Seq (Literal ''enum:'') (Star AnyChar),
           Literal ''geo:point'',
           Seqs [Literal ''string:'', Plus digit, Literal '':'',
             Alt (Literal ''cs'') (Literal ''ci''),
             Opt (Seq (Literal '':'') (Plus (Class [(CHR ''r'', CHR ''r''), (CHR ''u'', CHR ''u'')])))],
           Seqs [Literal ''binstring:'', Plus digit, Opt (Literal '':r'')]])
         EndOfString]"

text \<open>
  One line of \<open>self.EDXMLEntityAttributes\<close>: \<open>default_value\<close> is \<open>None\<close> where the line
  has no \<open>'default'\<close> key, \<open>length_limit\<close> and \<open>pattern\<close> are \<open>None\<close> where the source says so.
\<close>

record constraints =
  mandatory :: bool
  length_limit :: "nat option"
  pattern :: "regex option"
  default_value :: "string option"

definition line :: "bool \<Rightarrow> nat option \<Rightarrow> regex option \<Rightarrow> string option \<Rightarrow> constraints" where
  "line m l p d = \<lparr>mandatory = m, length_limit = l, pattern = p, default_value = d\<rparr>"

definition EDXMLEntityAttributes :: "(string \<times> (string \<times> constraints) list) list" where
  "EDXMLEntityAttributes =
    [(''eventtype'',
       [(''name'', line True (Some 40) (Some SimpleNamePattern) None),
        (''display-name'', line False (Some 64) (Some DisplayNamePattern) (Some ''/'')),
        (''description'', line True (Some 128) None None),
        (''classlist'', line True None None None),
        (''reporter-short'', line True None None None),
        (''reporter-long'', line True None None None)]),
     (''property'',
       [(''name'', line True (Some 64) (Some SimpleNamePattern) None),
        (''description'', line True (Some 128) None None),
        (''similar'', line False (Some 64) None None),
        (''object-type'', line True (Some 40) (Some SimpleNamePattern) None),
        (''unique'', line False None (Some TrueFalsePattern) (Some ''false'')),
        (''merge'', line False None (Some MergeOptions) (Some ''drop'')),
        (''defines-entity'', line False None (Some TrueFalsePattern) (Some ''false'')),
        (''entity-confidence'', line False None (Some DecimalPattern) (Some ''0''))]),
     (''relation'',
       [(''property1'', line True (Some 64) (Some SimpleNamePattern) None),
        (''property2'', line True (Some 64) (Some SimpleNamePattern) None),
        (''directed'', line False None (Some TrueFalsePattern) (Some ''true'')),
        (''description'', line True (Some 255) None None),
        (''type'', line True (Some 32) (Some RelationTypePattern) None),
        (''confidence'', line True None (Some DecimalPattern) None)]),
     (''objecttype'',
       [(''name'', line True (Some 40) (Some SimpleNamePattern) None),
        (''display-name'', line False (Some 64) (Some DisplayNamePattern) (Some ''/'')),
        (''description'', line True (Some 128) None None),
        (''fuzzy-matching'', line False None (Some FuzzyMatchingPattern) (Some ''none'')),
        (''compress'', line False None (Some TrueFalsePattern) (Some ''false'')),
        (''enp'', line False None None (Some ''0'')),
        (''regexp'', line False (Some 128) None (Some (''['' @ [CHR 0x5C] @ ''s'' @ [CHR 0x5C] @ ''S]*''))),
        (''data-type'', line True None (Some DataTypePattern) None)]),
     (''source'',
       [(''source-id'', line True None None None),
        (''url'', line True None None None),
        (''date-acquired'', line True None (Some SourceDatePattern) None),
        (''description'', line True (Some 128) None None)])]"

text \<open>\<open>self.EDXMLEntityAttributes[Entity][Attrib]\<close>, with the \<open>KeyError\<close> of either subscript.\<close>

definition entity_attribute :: "string \<Rightarrow> string \<Rightarrow> constraints result" where
  "entity_attribute Entity Attrib =
     bind_result (subscript (map_of EDXMLEntityAttributes) Entity) (\<lambda>table.
       subscript (map_of table) Attrib)"

subsection \<open>ValidateEdxmlEntityAttributes\<close>

text \<open>
  One round of the loop over the attributes of the table. \<open>if Value:\<close> holds for a present,
  non-empty value only.
\<close>

definition validate_attribute :: "string \<Rightarrow> attrs \<Rightarrow> string \<times> constraints \<Rightarrow> unit result" where
  "validate_attribute EntityName Attributes entry =
     (case entry of (Attribute, c) \<Rightarrow>
        (case map_of Attributes Attribute of
           None \<Rightarrow>
             if mandatory c then Inl (EDXMLError (LacksMandatoryAttribute EntityName Attribute))
             else Inr ()
         | Some Value \<Rightarrow>
             if Value \<noteq> [] then
               (if (case length_limit c of None \<Rightarrow> False | Some l \<Rightarrow> l \<noteq> 0 \<and> l < length Value)
                then Inl (EDXMLError (AttributeTooLong EntityName Attribute Value))
                else if (case pattern c of None \<Rightarrow> False | Some r \<Rightarrow> re_match r Value = None)
                then Inl (EDXMLError (AttributeInvalid EntityName Attribute Value))
                else Inr ())
             else Inr ()))"

fun validate_attributes :: "string \<Rightarrow> attrs \<Rightarrow> (string \<times> constraints) list \<Rightarrow> unit result" where
  "validate_attributes EntityName Attributes [] = Inr ()"
| "validate_attributes EntityName Attributes (entry # table) =
     bind_result (validate_attribute EntityName Attributes entry) (\<lambda>_.
       validate_attributes EntityName Attributes table)"

definition ValidateEdxmlEntityAttributes :: "string \<Rightarrow> attrs \<Rightarrow> unit result" where
  "ValidateEdxmlEntityAttributes EntityName Attributes =
     bind_result (subscript (map_of EDXMLEntityAttributes) EntityName) (\<lambda>table.
     bind_result (validate_attributes EntityName Attributes table) (\<lambda>_.
       let unknown = filter (\<lambda>k. k \<notin> set (map fst table)) (keys Attributes) in
       if 0 < length unknown
       then Inl (EDXMLError (UnknownAttributes EntityName unknown))
       else Inr ()))"

subsection \<open>CheckEdxmlEntityConsistency\<close>

text \<open>
  The three loops run over sets of attribute names, which Python iterates in an order of its
  choosing; the model takes them in the order of the dictionaries. The order decides which
  of several violations is reported, not whether the check passes.
\<close>

definition check_retained :: "string \<Rightarrow> string \<Rightarrow> attrs \<Rightarrow> attrs \<Rightarrow> string \<Rightarrow> unit result" where
  "check_retained Entity EntityDescription CurrentAttributes UpdatedAttributes Attribute =
     bind_result (attr CurrentAttributes Attribute) (\<lambda>cur.
     bind_result (attr UpdatedAttributes Attribute) (\<lambda>upd.
       if cur \<noteq> upd then Inl (EDXMLError (AttributeMismatch Attribute Entity EntityDescription))
       else Inr ()))"

definition check_added :: "string \<Rightarrow> string \<Rightarrow> attrs \<Rightarrow> string \<Rightarrow> unit result" where
  "check_added Entity EntityDescription UpdatedAttributes Attrib =
     bind_result (entity_attribute Entity Attrib) (\<lambda>c.
       if mandatory c then Inl (EDXMLError (MandatoryAttributeAdded Entity EntityDescription Attrib))
       else (case default_value c of
               Some dflt \<Rightarrow>
                 bind_result (attr UpdatedAttributes Attrib) (\<lambda>upd.
                   if upd \<noteq> dflt
                   then Inl (EDXMLError (NonDefaultAttributeAdded Entity EntityDescription Attrib))
                   else Inr ())
             | None \<Rightarrow>
                 Inl (EDXMLError (AttributeAddedWithoutDefault Entity EntityDescription Attrib))))"

definition check_removed :: "string \<Rightarrow> string \<Rightarrow> attrs \<Rightarrow> string \<Rightarrow> unit result" where
  "check_removed Entity EntityDescription CurrentAttributes Attrib =
     bind_result (entity_attribute Entity Attrib) (\<lambda>c.
       if mandatory c then Inl (EDXMLError (MandatoryAttributeRemoved Entity EntityDescription Attrib))
       else (case default_value c of
               Some dflt \<Rightarrow>
                 bind_result (attr CurrentAttributes Attrib) (\<lambda>cur.
                   if cur \<noteq> dflt
                   then Inl (EDXMLError (NonDefaultAttributeRemoved Entity EntityDescription Attrib))
                   else Inr ())
             | None \<Rightarrow>
                 Inl (EDXMLError (AttributeRemovedWithoutDefault Entity EntityDescription Attrib))))"

fun for_each :: "('a \<Rightarrow> unit result) \<Rightarrow> 'a list \<Rightarrow> unit result" where
  "for_each body [] = Inr ()"
| "for_each body (x # xs) = bind_result (body x) (\<lambda>_. for_each body xs)"

definition CheckEdxmlEntityConsistency :: "string \<Rightarrow> string \<Rightarrow> attrs \<Rightarrow> attrs \<Rightarrow> unit result" where
  "CheckEdxmlEntityConsistency Entity EntityDescription CurrentAttributes UpdatedAttributes =
     (let Current = set (keys CurrentAttributes);
          Update = set (keys UpdatedAttributes);
          AttribsAdded = filter (\<lambda>k. k \<notin> Current) (remdups (keys UpdatedAttributes));
          AttribsRetained = filter (\<lambda>k. k \<in> Current) (remdups (keys UpdatedAttributes));
          AttribsRemoved = filter (\<lambda>k. k \<notin> Update) (remdups (keys CurrentAttributes))
      in
      bind_result (for_each (check_retained Entity EntityDescription CurrentAttributes
                               UpdatedAttributes) AttribsRetained) (\<lambda>_.
      bind_result (for_each (check_added Entity EntityDescription UpdatedAttributes)
                     AttribsAdded) (\<lambda>_.
        for_each (check_removed Entity EntityDescription CurrentAttributes) AttribsRemoved)))"

subsection \<open>The registry and its queries\<close>

text \<open>One entry of \<open>self.EventTypes\<close>; \<open>parent\<close> is \<open>None\<close> while the key is absent.\<close>

record event_type =
  attributes :: attrs
  properties :: "string \<rightharpoonup> attrs"
  unique_properties :: "string set"
  mandatory_properties :: "string set"
  singleton_properties :: "string set"
  parentmapping :: "string \<rightharpoonup> string"
  relations :: "string \<rightharpoonup> attrs"
  related_properties :: "string set"
  unique :: bool
  parent :: "attrs option"

record definitions =
  EventTypes :: "string \<rightharpoonup> event_type"
  ObjectTypes :: "string \<rightharpoonup> attrs"
  ObjectTypeEventTypes :: "string \<rightharpoonup> string set"
  EventTypeClasses :: "string \<rightharpoonup> string set"
  RequiredObjectTypes :: "string set"
  EntityProperties :: "string \<rightharpoonup> string set"
  EventTypeNames :: "string list"
  PropertyNames :: "string \<rightharpoonup> string list"
  PropertyRelations :: "string \<rightharpoonup> string list"
  ObjectTypeNames :: "string list"

definition empty_definitions :: definitions where
  "empty_definitions =
     \<lparr>EventTypes = Map.empty, ObjectTypes = Map.empty, ObjectTypeEventTypes = Map.empty,
      EventTypeClasses = Map.empty, RequiredObjectTypes = {}, EntityProperties = Map.empty,
      EventTypeNames = [], PropertyNames = Map.empty, PropertyRelations = Map.empty,
      ObjectTypeNames = []\<rparr>"

definition EventTypeIsUnique :: "definitions \<Rightarrow> string \<Rightarrow> bool result" where
  "EventTypeIsUnique d EventTypeName =
     bind_result (subscript (EventTypes d) EventTypeName) (\<lambda>et. Inr (unique et))"

definition PropertyIsUnique :: "definitions \<Rightarrow> string \<Rightarrow> string \<Rightarrow> bool result" where
  "PropertyIsUnique d EventTypeName PropertyName =
     bind_result (subscript (EventTypes d) EventTypeName)
       (\<lambda>et. Inr (PropertyName \<in> unique_properties et))"

definition GetEventTypeProperties :: "definitions \<Rightarrow> string \<Rightarrow> string list result" where
  "GetEventTypeProperties d EventTypeName = subscript (PropertyNames d) EventTypeName"

definition GetPropertyObjectType :: "definitions \<Rightarrow> string \<Rightarrow> string \<Rightarrow> string result" where
  "GetPropertyObjectType d EventTypeName PropertyName =
     (case EventTypes d EventTypeName of
        Some et \<Rightarrow>
          (case properties et PropertyName of
             Some a \<Rightarrow> attr a ''object-type''
           | None \<Rightarrow> Inl (EDXMLError (NoSuchProperty EventTypeName PropertyName)))
      | None \<Rightarrow> Inl (EDXMLError (UnknownEventType EventTypeName)))"

definition GetObjectTypeDataType :: "definitions \<Rightarrow> string \<Rightarrow> string result" where
  "GetObjectTypeDataType d ObjectTypeName =
     bind_result (subscript (ObjectTypes d) ObjectTypeName) (\<lambda>a. attr a ''data-type'')"


subsection \<open>Registering event types, parents and properties\<close>

text \<open>
  A method that changes the registry returns the registry it leaves behind, also when it
  raises: what was written before the exception stays written.
\<close>

type_synonym update = "definitions \<Rightarrow> unit result \<times> definitions"

definition and_then :: "update \<Rightarrow> update \<Rightarrow> update" where
  "and_then f g d = (case f d of (Inl e, d') \<Rightarrow> (Inl e, d') | (Inr _, d') \<Rightarrow> g d')"

definition check :: "unit result \<Rightarrow> update" where
  "check r d = (r, d)"

text \<open>A write to an entry of \<open>self.EventTypes[EventTypeName]\<close>.\<close>

definition update_event_type :: "string \<Rightarrow> (event_type \<Rightarrow> event_type) \<Rightarrow> update" where
  "update_event_type EventTypeName f d =
     (case EventTypes d EventTypeName of
        None \<Rightarrow> (Inl (KeyError EventTypeName), d)
      | Some et \<Rightarrow> (Inr (), d\<lparr>EventTypes := (EventTypes d)(EventTypeName \<mapsto> f et)\<rparr>))"

definition member_or_empty :: "(string \<rightharpoonup> string set) \<Rightarrow> string \<Rightarrow> string set" where
  "member_or_empty m k = (case m k of None \<Rightarrow> {} | Some S \<Rightarrow> S)"

definition new_event_type :: "attrs \<Rightarrow> event_type" where
  "new_event_type Attributes =
     \<lparr>attributes = Attributes, properties = Map.empty, unique_properties = {},
      mandatory_properties = {}, singleton_properties = {}, parentmapping = Map.empty,
      relations = Map.empty, related_properties = {}, unique = False, parent = None\<rparr>"

definition AddNewEventType :: "string \<Rightarrow> attrs \<Rightarrow> update" where
  "AddNewEventType EventTypeName Attributes =
     and_then (\<lambda>d. (Inr (),
        d\<lparr>EventTypeNames := EventTypeNames d @ [EventTypeName],
          PropertyNames := (PropertyNames d)(EventTypeName \<mapsto> []),
          EntityProperties := (EntityProperties d)(EventTypeName \<mapsto> {}),
          PropertyRelations := (PropertyRelations d)(EventTypeName \<mapsto> [])\<rparr>))
    (and_then (check (ValidateEdxmlEntityAttributes ''eventtype'' Attributes))
    (and_then (\<lambda>d. (Inr (),
        d\<lparr>EventTypes := (EventTypes d)(EventTypeName \<mapsto> new_event_type Attributes)\<rparr>))
    (\<lambda>d. case attr Attributes ''classlist'' of
        Inl e \<Rightarrow> (Inl e, d)
      | Inr classlist \<Rightarrow> (Inr (),
          d\<lparr>EventTypeClasses :=
              foldl (\<lambda>m Class. m(Class \<mapsto> insert EventTypeName (member_or_empty m Class)))
                (EventTypeClasses d) (py_split CHR '','' classlist)\<rparr>))))"

text \<open>
  \<open>SetNewEventTypeParent\<close>. The handler \<open>except KeyError, ValueError\<close> catches a
  \<open>KeyError\<close> only (and names it \<open>ValueError\<close>), so the \<open>ValueError\<close> of unpacking a mapping
  that is no pair propagates; the mappings before it stay written.
\<close>

fun parent_mappings :: "string \<Rightarrow> string list \<Rightarrow> update" where
  "parent_mappings EventTypeName [] = check (Inr ())"
| "parent_mappings EventTypeName (PropertyMapping # rest) =
     (case py_split CHR '':'' PropertyMapping of
        [ChildProperty, ParentProperty] \<Rightarrow>
          and_then (update_event_type EventTypeName
              (\<lambda>et. et\<lparr>parentmapping := (parentmapping et)(ChildProperty \<mapsto> ParentProperty)\<rparr>))
            (parent_mappings EventTypeName rest)
      | _ \<Rightarrow> check (Inl ValueError))"

definition SetNewEventTypeParent :: "string \<Rightarrow> attrs \<Rightarrow> update" where
  "SetNewEventTypeParent EventTypeName Attributes =
     and_then (update_event_type EventTypeName (\<lambda>et. et\<lparr>parent := Some Attributes\<rparr>))
       (case attr Attributes ''propertymap'' of
          Inl e \<Rightarrow> check (Inl (EDXMLError (InvalidPropertyMap EventTypeName)))
        | Inr propertymap \<Rightarrow> parent_mappings EventTypeName (py_split CHR '','' propertymap))"

text \<open>
  \<open>AddNewProperty\<close>. The two defaults \<open>unique\<close> and \<open>defines-entity\<close> are stored with the
  attributes of the tag (\<open>dict.update\<close>: the attributes of the tag win).
\<close>

definition derive_unique :: "string \<Rightarrow> string \<Rightarrow> attrs \<Rightarrow> update" where
  "derive_unique EventTypeName PropertyName Attributes =
     (case map_of Attributes ''unique'' of
        Some u \<Rightarrow>
          if py_lower u = ''true'' then
            and_then (update_event_type EventTypeName (\<lambda>et. et\<lparr>unique := True\<rparr>))
              (update_event_type EventTypeName
                 (\<lambda>et. et\<lparr>unique_properties := insert PropertyName (unique_properties et)\<rparr>))
          else check (Inr ())
      | None \<Rightarrow> check (Inr ()))"

definition derive_merge :: "string \<Rightarrow> string \<Rightarrow> attrs \<Rightarrow> update" where
  "derive_merge EventTypeName PropertyName Attributes =
     (case map_of Attributes ''merge'' of
        Some m \<Rightarrow>
          and_then
            (if m \<in> {''match'', ''min'', ''max''} then
               update_event_type EventTypeName
                 (\<lambda>et. et\<lparr>mandatory_properties := insert PropertyName (mandatory_properties et)\<rparr>)
             else check (Inr ()))
         (and_then
            (if m \<in> {''match'', ''replace'', ''min'', ''max''} then
               update_event_type EventTypeName
                 (\<lambda>et. et\<lparr>singleton_properties := insert PropertyName (singleton_properties et)\<rparr>)
             else check (Inr ()))
            (\<lambda>d. case EventTypes d EventTypeName of
               None \<Rightarrow> (Inl (KeyError EventTypeName), d)
             | Some et \<Rightarrow>
                 if PropertyName \<in> dom (parentmapping et) then
                   update_event_type EventTypeName
                     (\<lambda>et. et\<lparr>singleton_properties :=
                               insert PropertyName (singleton_properties et)\<rparr>) d
                 else (Inr (), d)))
      | None \<Rightarrow> check (Inr ()))"

definition derive_entity :: "string \<Rightarrow> string \<Rightarrow> attrs \<Rightarrow> update" where
  "derive_entity EventTypeName PropertyName Attributes d =
     (case map_of Attributes ''defines-entity'' of
        Some e \<Rightarrow>
          if py_lower e = ''true'' then
            (case EntityProperties d EventTypeName of
               None \<Rightarrow> (Inl (KeyError EventTypeName), d)
             | Some S \<Rightarrow> (Inr (),
                 d\<lparr>EntityProperties := (EntityProperties d)(EventTypeName \<mapsto> insert PropertyName S)\<rparr>))
          else (Inr (), d)
      | None \<Rightarrow> (Inr (), d))"

definition stored_attributes :: "attrs \<Rightarrow> attrs" where
  "stored_attributes Attributes =
     AList.merge [(''unique'', ''false''), (''defines-entity'', ''false'')] Attributes"

definition AddNewProperty :: "string \<Rightarrow> string \<Rightarrow> attrs \<Rightarrow> update" where
  "AddNewProperty EventTypeName PropertyName Attributes =
     and_then (\<lambda>d. case PropertyNames d EventTypeName of
         None \<Rightarrow> (Inl (KeyError EventTypeName), d)
       | Some names \<Rightarrow> (Inr (),
           d\<lparr>PropertyNames := (PropertyNames d)(EventTypeName \<mapsto> names @ [PropertyName])\<rparr>))
    (and_then (check (ValidateEdxmlEntityAttributes ''property'' Attributes))
    (and_then (\<lambda>d. case attr Attributes ''object-type'' of
         Inl e \<Rightarrow> (Inl e, d)
       | Inr ObjectType \<Rightarrow> (Inr (),
           d\<lparr>RequiredObjectTypes := insert ObjectType (RequiredObjectTypes d),
             ObjectTypeEventTypes := (ObjectTypeEventTypes d)(ObjectType \<mapsto>
                insert EventTypeName (member_or_empty (ObjectTypeEventTypes d) ObjectType))\<rparr>))
    (and_then (derive_unique EventTypeName PropertyName Attributes)
    (and_then (derive_merge EventTypeName PropertyName Attributes)
    (and_then (derive_entity EventTypeName PropertyName Attributes)
      (update_event_type EventTypeName
         (\<lambda>et. et\<lparr>properties :=
                   (properties et)(PropertyName \<mapsto> stored_attributes Attributes)\<rparr>)))))))"

text \<open>The public methods: a name seen before is checked against its first definition.\<close>

definition AddEventType :: "string \<Rightarrow> attrs \<Rightarrow> update" where
  "AddEventType EventTypeName Attributes d =
     (case EventTypes d EventTypeName of
        Some et \<Rightarrow>
          (CheckEdxmlEntityConsistency ''eventtype'' EventTypeName (attributes et) Attributes, d)
      | None \<Rightarrow> AddNewEventType EventTypeName Attributes d)"

definition SetEventTypeParent :: "string \<Rightarrow> attrs \<Rightarrow> update" where
  "SetEventTypeParent EventTypeName Attributes d =
     (case EventTypes d EventTypeName of
        None \<Rightarrow> (Inl (KeyError EventTypeName), d)
      | Some et \<Rightarrow>
          (case parent et of
             Some cur \<Rightarrow>
               (bind_result (attr Attributes ''eventtype'') (\<lambda>desc.
                  CheckEdxmlEntityConsistency ''parent'' desc cur Attributes), d)
           | None \<Rightarrow> SetNewEventTypeParent EventTypeName Attributes d))"

definition AddProperty :: "string \<Rightarrow> string \<Rightarrow> attrs \<Rightarrow> update" where
  "AddProperty EventTypeName PropertyName Attributes d =
     (case EventTypes d EventTypeName of
        None \<Rightarrow> (Inl (KeyError EventTypeName), d)
      | Some et \<Rightarrow>
          (case properties et PropertyName of
             Some cur \<Rightarrow>
               (CheckEdxmlEntityConsistency ''property'' PropertyName cur Attributes, d)
           | None \<Rightarrow> AddNewProperty EventTypeName PropertyName Attributes d))"


section \<open>Object values: class EDXMLBase\<close>

subsection \<open>ValidateObject\<close>

text \<open>
  The branches of \<open>ValidateObject\<close>, in the order of the \<open>if\<close>/\<open>elif\<close> chain; \<open>raise_if\<close>
  is \<open>if c: self.Error(m)\<close>. No branch consults the run time: which strings \<open>float\<close>
  accepts and which the codec \<open>hex\<close> decodes is syntax.
\<close>

definition raise_if :: "bool \<Rightarrow> edxml_message \<Rightarrow> unit result" where
  "raise_if c m = (if c then Inl (EDXMLError m) else Inr ())"

definition validate_number ::
  "py_runtime \<Rightarrow> string \<Rightarrow> string \<Rightarrow> string list \<Rightarrow> unit result" where
  "validate_number rt Value ObjectTypeName ObjectDataType =
     bind_result (index ObjectDataType 1) (\<lambda>k.
       if k = ''decimal'' then
         (if length ObjectDataType < 5
          then raise_if (string_less_int Value 0) (NegativeUnsigned Value ObjectTypeName)
          else Inr ())
       else if k = ''hex'' then
         bind_result
           (if 3 < length ObjectDataType then
              bind_result (index ObjectDataType 5) (\<lambda>HexSeparator.
                if length HexSeparator = 0 then Inr (filter (\<lambda>c. c \<noteq> CHR '':'') Value)
                else Inr Value)
            else Inr Value) (\<lambda>Value.
         raise_if (\<not> hex_decodes Value) (InvalidHexadecimal Value ObjectTypeName))
       else if k = ''float'' \<or> k = ''double'' then
         bind_result (raise_if (\<not> float_literal Value) (InvalidNumber Value ObjectTypeName)) (\<lambda>_.
           if length ObjectDataType < 3
           then raise_if (string_less_int Value 0) (NegativeUnsigned Value ObjectTypeName)
           else Inr ())
       else
         (if length ObjectDataType < 3
          then raise_if (string_less_int Value 0) (NegativeUnsigned Value ObjectTypeName)
          else Inr ()))"

definition validate_string :: "string \<Rightarrow> string \<Rightarrow> string \<Rightarrow> string list \<Rightarrow> unit result" where
  "validate_string Value ObjectTypeName DataType ObjectDataType =
     bind_result (raise_if (equals_False (re_match StringDataTypePattern DataType))
                    (InvalidDataType DataType)) (\<lambda>_.
     bind_result (index ObjectDataType 1) (\<lambda>l.
     bind_result (py_int l) (\<lambda>StringLength.
       raise_if (0 < StringLength \<and> StringLength < int (length Value))
         (StringTooLong ObjectTypeName Value))))"

definition validate_binstring ::
  "string \<Rightarrow> string \<Rightarrow> string \<Rightarrow> string list \<Rightarrow> unit result" where
  "validate_binstring Value ObjectTypeName DataType ObjectDataType =
     bind_result (raise_if (equals_False (re_match BinstringDataTypePattern DataType))
                    (InvalidDataType DataType)) (\<lambda>_.
     bind_result (index ObjectDataType 1) (\<lambda>l.
       raise_if (string_greater_int l 0 \<and> int_greater_string (int (length Value)) l)
         (BinstringTooLong ObjectTypeName Value)))"

definition validate_hashlink :: "string \<Rightarrow> unit result" where
  "validate_hashlink Value =
     raise_if (equals_False (re_match HashlinkPattern Value)) (InvalidHashlink Value)"

definition validate_ip_part :: "string \<Rightarrow> string \<Rightarrow> unit result" where
  "validate_ip_part Value SplitIpPart =
     (case py_int SplitIpPart of
        Inl e \<Rightarrow> Inl (EDXMLError (InvalidIP Value))
      | Inr n \<Rightarrow> raise_if (\<not> (0 \<le> n \<and> n \<le> 255)) (InvalidIP Value))"

definition validate_ip :: "string \<Rightarrow> unit result" where
  "validate_ip Value =
     (let SplitIp = py_split CHR ''.'' Value in
      bind_result (raise_if (length SplitIp \<noteq> 4) (InvalidIP Value)) (\<lambda>_.
        for_each (validate_ip_part Value) SplitIp))"

definition ValidateObject :: "py_runtime \<Rightarrow> string \<Rightarrow> string \<Rightarrow> string \<Rightarrow> unit result" where
  "ValidateObject rt Value ObjectTypeName DataType =
     (let ObjectDataType = py_split CHR '':'' DataType in
      bind_result (index ObjectDataType 0) (\<lambda>t.
        if t = ''timestamp'' then
          raise_if (\<not> float_literal Value) (InvalidTimestamp Value ObjectTypeName)
        else if t = ''number'' then validate_number rt Value ObjectTypeName ObjectDataType
        else if t = ''geo'' then bind_result (index ObjectDataType 1) (\<lambda>_. Inr ())
        else if t = ''string'' then validate_string Value ObjectTypeName DataType ObjectDataType
        else if t = ''binstring'' then
          validate_binstring Value ObjectTypeName DataType ObjectDataType
        else if t = ''hashlink'' then validate_hashlink Value
        else if t = ''ip'' then validate_ip Value
        else if t = ''boolean'' then
          (let ObjectString = py_lower Value in
           raise_if (ObjectString \<noteq> ''true'' \<and> ObjectString \<noteq> ''false'') (InvalidBoolean Value))
        else if t = ''enum'' then
          raise_if (Value \<notin> set (tl ObjectDataType)) (InvalidEnum Value)
        else Inl (EDXMLError (InvalidDataType DataType))))"

subsection \<open>NormalizeObject\<close>

text \<open>
  \<open>NormalizeObject\<close> receives the data type already split at its colons. The formats
  \<open>%.6f\<close>, \<open>%.Nf\<close> and \<open>%f\<close> print a binary floating point number and belong to the run
  time; \<open>%d\<close> prints an integer. The last branch for a \<open>number\<close> runs \<open>float(Value)\<close>, which
  raises \<open>ValueError\<close> for a string that is no float literal; every \<open>number\<close> type that
  is neither \<open>decimal\<close> nor one of the integer types takes it, \<open>hex\<close> as well. In the \<open>ip\<close> branch every exception of the conversion is
  caught and replaced by \<open>self.Error\<close>.
\<close>

definition normalize_ip :: "string \<Rightarrow> string result" where
  "normalize_ip Value =
     (let Octets = py_split CHR ''.'' Value in
      case bind_result (index Octets 0) (\<lambda>o0. bind_result (py_int o0) (\<lambda>a.
           bind_result (index Octets 1) (\<lambda>o1. bind_result (py_int o1) (\<lambda>b.
           bind_result (index Octets 2) (\<lambda>o2. bind_result (py_int o2) (\<lambda>c.
           bind_result (index Octets 3) (\<lambda>o3. bind_result (py_int o3) (\<lambda>d.
             Inr (str_int a @ ''.'' @ str_int b @ ''.'' @ str_int c @ ''.'' @ str_int d))))))))) of
        Inl e \<Rightarrow> Inl (EDXMLError (NormalizeInvalidIP Value))
      | Inr s \<Rightarrow> Inr s)"

definition NormalizeObject :: "py_runtime \<Rightarrow> string \<Rightarrow> string list \<Rightarrow> string result" where
  "NormalizeObject rt Value DataType =
     bind_result (index DataType 0) (\<lambda>t.
       if t = ''timestamp'' then library (format_decimal rt ''6'' Value)
       else if t = ''number'' then
         bind_result (index DataType 1) (\<lambda>k.
           if k = ''decimal'' then
             bind_result (index DataType 3) (\<lambda>DecimalPrecision.
               library (format_decimal rt DecimalPrecision Value))
           else if k \<in> {''tinyint'', ''smallint'', ''mediumint'', ''int'', ''bigint''} then
             bind_result (py_int Value) (\<lambda>n. Inr (str_int n))
           else if float_literal Value then library (format_float rt Value)
           else Inl ValueError)
       else if t = ''ip'' then normalize_ip Value
       else if t = ''string'' then
         bind_result (index DataType 2) (\<lambda>cs.
           if cs = ''ci'' then Inr (py_lower Value) else Inr Value)
       else if t = ''boolean'' then Inr (py_lower Value)
       else Inr Value)"


subsection \<open>MergeEvents\<close>

text \<open>
  \<open>EventObjectsA\<close> and \<open>EventObjectsB\<close> are dictionaries from property names to lists of
  object values. The three dictionaries \<open>Original\<close>, \<open>Source\<close> and \<open>Target\<close> of the method
  map every property name of the event type to a set of values.
\<close>

type_synonym objects = "string \<rightharpoonup> string list"
type_synonym value_sets = "string \<rightharpoonup> string set"

definition set_or_empty :: "objects \<Rightarrow> string \<Rightarrow> string set" where
  "set_or_empty EventObjects PropertyName =
     (case EventObjects PropertyName of Some vs \<Rightarrow> set vs | None \<Rightarrow> {})"

definition collect_sets :: "string list \<Rightarrow> objects \<Rightarrow> value_sets" where
  "collect_sets names EventObjects =
     foldl (\<lambda>m p. m(p \<mapsto> set_or_empty EventObjects p)) Map.empty names"

text \<open>\<open>min(Values)\<close> and \<open>max(Values)\<close>: \<open>ValueError\<close> on the empty set.\<close>

definition extreme_of :: "bool \<Rightarrow> ('a::linorder) set \<Rightarrow> 'a result" where
  "extreme_of least Values =
     (if Values = {} then Inl ValueError else Inr (if least then Min Values else Max Values))"

text \<open>\<open>for Value in S: Values.add(int(Value))\<close>: the first value that is no integer raises.\<close>

definition ints_of :: "string set \<Rightarrow> int set result" where
  "ints_of S =
     (if \<exists>v \<in> S. isl (py_int v) then Inl ValueError
      else Inr ((\<lambda>v. projr (py_int v)) ` S))"

text \<open>
  The branch \<open>MergeStrategy in ['min', 'max']\<close>; the result is the new value of
  \<open>Target[PropertyName]\<close>. For a timestamp the set \<open>Values\<close> holds the strings themselves,
  for every other numeric type the converted numbers.
\<close>

definition merge_extreme ::
  "py_runtime \<Rightarrow> definitions \<Rightarrow> string \<Rightarrow> string \<Rightarrow> bool \<Rightarrow> string set \<Rightarrow> string set
     \<Rightarrow> string set result" where
  "merge_extreme rt d EventTypeName PropertyName least src tgt =
     bind_result (GetPropertyObjectType d EventTypeName PropertyName) (\<lambda>ObjectType.
     bind_result (GetObjectTypeDataType d ObjectType) (\<lambda>DataType.
     let SplitDataType = py_split CHR '':'' DataType in
     bind_result (index SplitDataType 0) (\<lambda>t.
       if t = ''number'' \<or> t = ''timestamp'' then
         if t = ''timestamp'' then
           bind_result (extreme_of least (src \<union> tgt)) (\<lambda>v.
           bind_result (py_str v) (\<lambda>s. Inr {s}))
         else
           bind_result (index SplitDataType 1) (\<lambda>k.
             if k = ''float'' \<or> k = ''double'' then
               bind_result (library (float_extreme rt least src tgt)) (\<lambda>s. Inr {s})
             else if k = ''decimal'' then
               bind_result (library (decimal_extreme rt least src tgt)) (\<lambda>s. Inr {s})
             else
               bind_result (ints_of src) (\<lambda>a.
               bind_result (ints_of tgt) (\<lambda>b.
               bind_result (extreme_of least (a \<union> b)) (\<lambda>i. Inr {str_int i}))))
       else Inr tgt)))"

text \<open>One round of the loop \<open>for PropertyName in Source\<close>: the new \<open>Target[PropertyName]\<close>.\<close>

definition merge_property ::
  "py_runtime \<Rightarrow> definitions \<Rightarrow> string \<Rightarrow> event_type \<Rightarrow> string \<Rightarrow> string set \<Rightarrow> string set
     \<Rightarrow> string set result" where
  "merge_property rt d EventTypeName et PropertyName src tgt =
     (if PropertyName \<notin> unique_properties et then
        bind_result (subscript (properties et) PropertyName) (\<lambda>a.
        bind_result (attr a ''merge'') (\<lambda>MergeStrategy.
          if MergeStrategy = ''min'' \<or> MergeStrategy = ''max'' then
            merge_extreme rt d EventTypeName PropertyName (MergeStrategy = ''min'') src tgt
          else if MergeStrategy = ''add'' then Inr (src \<union> tgt)
          else if MergeStrategy = ''replace'' then Inr src
          else Inr tgt))
      else Inr tgt)"

text \<open>
  The loop over the keys of \<open>Source\<close>. A dictionary is iterated in an order of Python's
  choosing; each round reads and writes the entry of its own property only, so the order
  decides nothing but which exception surfaces when several rounds would raise.
\<close>

fun merge_loop ::
  "py_runtime \<Rightarrow> definitions \<Rightarrow> string \<Rightarrow> event_type \<Rightarrow> value_sets \<Rightarrow> string list \<Rightarrow> value_sets
     \<Rightarrow> value_sets result" where
  "merge_loop rt d EventTypeName et Source [] Target = Inr Target"
| "merge_loop rt d EventTypeName et Source (p # ps) Target =
     bind_result (subscript Source p) (\<lambda>src.
     bind_result (subscript Target p) (\<lambda>tgt.
     bind_result (merge_property rt d EventTypeName et p src tgt) (\<lambda>v.
       merge_loop rt d EventTypeName et Source ps (Target(p \<mapsto> v)))))"

text \<open>The loop "Remove any objects due to replace strategy".\<close>

fun replace_loop :: "event_type \<Rightarrow> string list \<Rightarrow> value_sets \<Rightarrow> value_sets result" where
  "replace_loop et [] Target = Inr Target"
| "replace_loop et (p # ps) Target =
     bind_result (subscript (properties et) p) (\<lambda>a.
     bind_result (attr a ''merge'') (\<lambda>m.
       replace_loop et ps (if m = ''replace'' then Target(p \<mapsto> {}) else Target)))"

text \<open>The loop "Determine if anything changed".\<close>

fun EventUpdated :: "value_sets \<Rightarrow> value_sets \<Rightarrow> string list \<Rightarrow> bool result" where
  "EventUpdated Original Target [] = Inr False"
| "EventUpdated Original Target (p # ps) =
     bind_result (subscript Target p) (\<lambda>tgt.
       if Original p = None \<and> 0 < card tgt then Inr True
       else bind_result (subscript Original p) (\<lambda>org.
         if tgt \<noteq> org then Inr True else EventUpdated Original Target ps))"


text \<open>
  The method either returns a truth value or raises. \<open>EventObjectsA\<close> is written in the
  last step only: cleared, then given one list for each key of \<open>Target\<close>, holding the
  values of the set in the order Python iterates it. \<open>EventObjectsB\<close> is only read, and
  every read of it happens before that step.
\<close>

record merge_result =
  ObjectsA :: objects
  outcome :: "bool result"

definition merge_targets ::
  "py_runtime \<Rightarrow> definitions \<Rightarrow> string \<Rightarrow> objects \<Rightarrow> objects \<Rightarrow> (value_sets \<times> bool) result" where
  "merge_targets rt d EventTypeName EventObjectsA EventObjectsB =
     bind_result (subscript (EventTypes d) EventTypeName) (\<lambda>et.
       if unique et = False then Inl (EDXMLError (MergeNotUnique EventTypeName))
       else
         bind_result (GetEventTypeProperties d EventTypeName) (\<lambda>names.
         let Original = collect_sets names EventObjectsA;
             Target = collect_sets names EventObjectsA;
             Source = collect_sets names EventObjectsB
         in
         bind_result (merge_loop rt d EventTypeName et Source (remdups names) Target) (\<lambda>Target.
         bind_result (replace_loop et
             (filter (\<lambda>p. Source p = None \<and> Target p \<noteq> None) names) Target) (\<lambda>Target.
         bind_result (EventUpdated Original Target names) (\<lambda>u. Inr (Target, u))))))"

definition MergeEvents ::
  "py_runtime \<Rightarrow> definitions \<Rightarrow> string \<Rightarrow> objects \<Rightarrow> objects \<Rightarrow> merge_result" where
  "MergeEvents rt d EventTypeName EventObjectsA EventObjectsB =
     (case merge_targets rt d EventTypeName EventObjectsA EventObjectsB of
        Inl e \<Rightarrow> \<lparr>ObjectsA = EventObjectsA, outcome = Inl e\<rparr>
      | Inr (Target, updated) \<Rightarrow>
          if updated then
            \<lparr>ObjectsA = (\<lambda>p. map_option (set_iter rt) (Target p)), outcome = Inr True\<rparr>
          else \<lparr>ObjectsA = EventObjectsA, outcome = Inr False\<rparr>)"

text \<open>
  The call as Python runs it: the two arguments are references to dictionaries in a store,
  and the method mutates the dictionary behind the first. The callers of the repository
  pass a buffered dictionary and one built for the event at hand, two distinct objects;
  were both references the same, the write to \<open>EventObjectsA\<close> would show through
  \<open>EventObjectsB\<close>.
\<close>

type_synonym store = "nat \<Rightarrow> objects"

definition MergeEvents_call ::
  "py_runtime \<Rightarrow> definitions \<Rightarrow> string \<Rightarrow> nat \<Rightarrow> nat \<Rightarrow> store \<Rightarrow> bool result \<times> store" where
  "MergeEvents_call rt d EventTypeName a b h =
     (let r = MergeEvents rt d EventTypeName (h a) (h b) in (outcome r, h(a := ObjectsA r)))"

subsection \<open>ComputeStickyHash and ComputeStickyHashV3\<close>

text \<open>
  An event object is a dictionary with the keys \<open>property\<close> and \<open>value\<close>, modelled as a
  pair. One round of the loop over the objects either skips the object, adds a string to
  \<open>ObjectStrings\<close>, or raises; an \<open>EDXMLError\<close> of \<open>NormalizeObject\<close> is caught and raised
  again with the property and the event type in its message.
\<close>

definition object_string ::
  "py_runtime \<Rightarrow> definitions \<Rightarrow> string \<Rightarrow> string \<times> string \<Rightarrow> string option result" where
  "object_string rt d EventTypeName EventObject =
     (case EventObject of (PropertyName, Value) \<Rightarrow>
        bind_result (EventTypeIsUnique d EventTypeName) (\<lambda>u.
        bind_result (if u then PropertyIsUnique d EventTypeName PropertyName else Inr True) (\<lambda>pu.
          if u \<and> pu = False then Inr None
          else
            bind_result (GetPropertyObjectType d EventTypeName PropertyName) (\<lambda>ObjectType.
            bind_result (GetObjectTypeDataType d ObjectType) (\<lambda>dt.
            let DataType = py_split CHR '':'' dt in
            bind_result (index DataType 0) (\<lambda>t.
            bind_result (if t = ''number''
                         then bind_result (index DataType 1)
                                (\<lambda>k. Inr (k = ''float'' \<or> k = ''double''))
                         else Inr False) (\<lambda>floating.
              if floating then Inr None
              else
                (case NormalizeObject rt Value DataType of
                   Inl (EDXMLError m) \<Rightarrow>
                     Inl (EDXMLError (InvalidValueInProperty PropertyName EventTypeName Value))
                 | Inl e \<Rightarrow> Inl e
                 | Inr NormalizedValue \<Rightarrow> Inr (Some (PropertyName @ '':'' @ NormalizedValue))))))))))"

fun object_strings ::
  "py_runtime \<Rightarrow> definitions \<Rightarrow> string \<Rightarrow> (string \<times> string) list \<Rightarrow> string set
     \<Rightarrow> string set result" where
  "object_strings rt d EventTypeName [] ObjectStrings = Inr ObjectStrings"
| "object_strings rt d EventTypeName (EventObject # EventObjects) ObjectStrings =
     bind_result (object_string rt d EventTypeName EventObject) (\<lambda>s.
       object_strings rt d EventTypeName EventObjects
         (case s of None \<Rightarrow> ObjectStrings | Some x \<Rightarrow> insert x ObjectStrings))"

definition sorted_strings :: "string set \<Rightarrow> string list" where
  "sorted_strings S = sorted_list_of_set S"

definition ComputeStickyHash ::
  "py_runtime \<Rightarrow> definitions \<Rightarrow> string \<Rightarrow> (string \<times> string) list \<Rightarrow> string \<Rightarrow> string result" where
  "ComputeStickyHash rt d EventTypeName EventObjects EventContent =
     bind_result (object_strings rt d EventTypeName EventObjects {}) (\<lambda>ObjectStrings.
     bind_result (EventTypeIsUnique d EventTypeName) (\<lambda>u.
       if u then
         Inr (sha1_hexdigest (utf8_encode
           (EventTypeName @ [CHR 0x0A] @ py_join [CHR 0x0A] (sorted_strings ObjectStrings))))
       else
         Inr (sha1_hexdigest (utf8_encode
           (EventTypeName @ [CHR 0x0A] @ py_join [CHR 0x0A] (sorted_strings ObjectStrings)
              @ [CHR 0x0A] @ EventContent)))))"

definition ComputeStickyHashV3 ::
  "py_runtime \<Rightarrow> definitions \<Rightarrow> string \<Rightarrow> string \<Rightarrow> (string \<times> string) list \<Rightarrow> string
     \<Rightarrow> string result" where
  "ComputeStickyHashV3 rt d EventTypeName SourceUrl EventObjects EventContent =
     bind_result (object_strings rt d EventTypeName EventObjects {}) (\<lambda>ObjectStrings.
     bind_result (EventTypeIsUnique d EventTypeName) (\<lambda>u.
       if u then
         Inr (sha1_hexdigest (utf8_encode
           (SourceUrl @ [CHR 0x0A] @ EventTypeName @ [CHR 0x0A]
              @ py_join [CHR 0x0A] (sorted_strings ObjectStrings))))
       else
         Inr (sha1_hexdigest (utf8_encode
           (SourceUrl @ [CHR 0x0A] @ EventTypeName @ [CHR 0x0A]
              @ py_join [CHR 0x0A] (sorted_strings ObjectStrings)
              @ [CHR 0x0A] @ EventContent)))))"


section \<open>The properties in the words of the specification\<close>

subsection \<open>Consistency of two definitions of one entity\<close>

text \<open>
  An attribute of an entity is optional with documented default \<open>v\<close> when the attribute
  grammar has a line for it that is not mandatory and carries the default \<open>v\<close>.
\<close>

definition optional_with_default :: "string \<Rightarrow> string \<Rightarrow> string \<Rightarrow> bool" where
  "optional_with_default Entity Attrib v =
     (case entity_attribute Entity Attrib of
        Inl e \<Rightarrow> False
      | Inr c \<Rightarrow> \<not> mandatory c \<and> default_value c = Some v)"

text \<open>
  Two definitions agree when every attribute present in both has the same value, every
  attribute of the new one alone is optional and has its default, and every attribute of
  the old one alone is optional and had its default.
\<close>

definition definitions_agree :: "string \<Rightarrow> attrs \<Rightarrow> attrs \<Rightarrow> bool" where
  "definitions_agree Entity CurrentAttributes UpdatedAttributes =
     ((\<forall>a \<in> set (keys UpdatedAttributes) \<inter> set (keys CurrentAttributes).
          map_of CurrentAttributes a = map_of UpdatedAttributes a)
      \<and> (\<forall>a \<in> set (keys UpdatedAttributes) - set (keys CurrentAttributes).
          \<exists>v. map_of UpdatedAttributes a = Some v \<and> optional_with_default Entity a v)
      \<and> (\<forall>a \<in> set (keys CurrentAttributes) - set (keys UpdatedAttributes).
          \<exists>v. map_of CurrentAttributes a = Some v \<and> optional_with_default Entity a v))"

subsection \<open>The preimage of the sticky hash\<close>

text \<open>
  The data type of a property: the data type of the object type the property names, split
  at its colons; \<open>None\<close> when the property or its object type is not defined. A data type is
  floating when it is \<open>number:float\<close> or \<open>number:double\<close>.
\<close>

definition data_type_of :: "definitions \<Rightarrow> string \<Rightarrow> string \<Rightarrow> string list option" where
  "data_type_of d EventTypeName PropertyName =
     (case GetPropertyObjectType d EventTypeName PropertyName of
        Inl e \<Rightarrow> None
      | Inr ObjectType \<Rightarrow>
          (case GetObjectTypeDataType d ObjectType of
             Inl e \<Rightarrow> None
           | Inr dt \<Rightarrow> Some (py_split CHR '':'' dt)))"

definition is_floating :: "string list \<Rightarrow> bool" where
  "is_floating dt =
     (2 \<le> length dt \<and> dt ! 0 = ''number'' \<and> (dt ! 1 = ''float'' \<or> dt ! 1 = ''double''))"

definition floating_property :: "definitions \<Rightarrow> string \<Rightarrow> string \<Rightarrow> bool" where
  "floating_property d EventTypeName PropertyName =
     (case data_type_of d EventTypeName PropertyName of None \<Rightarrow> False | Some dt \<Rightarrow> is_floating dt)"

text \<open>
  Step 1 of the hash procedure: a pair is skipped when the event type is unique and the
  property is not one of its unique properties, or when the data type of the property is
  floating; otherwise the value is normalized and \<open>property:normalized_value\<close> joins the
  set \<open>S\<close>. An event can be hashed when every pair that is not skipped has a data type
  and a value that normalizes.
\<close>

definition skipped :: "definitions \<Rightarrow> string \<Rightarrow> event_type \<Rightarrow> string \<Rightarrow> bool" where
  "skipped d EventTypeName et PropertyName =
     ((unique et \<and> PropertyName \<notin> unique_properties et)
      \<or> floating_property d EventTypeName PropertyName)"

definition hashed_string ::
  "py_runtime \<Rightarrow> definitions \<Rightarrow> string \<Rightarrow> event_type \<Rightarrow> string \<times> string \<Rightarrow> string option" where
  "hashed_string rt d EventTypeName et EventObject =
     (case EventObject of (PropertyName, Value) \<Rightarrow>
        if skipped d EventTypeName et PropertyName then None
        else (case data_type_of d EventTypeName PropertyName of
                None \<Rightarrow> None
              | Some dt \<Rightarrow>
                  (case NormalizeObject rt Value dt of
                     Inl e \<Rightarrow> None
                   | Inr NormalizedValue \<Rightarrow> Some (PropertyName @ '':'' @ NormalizedValue))))"

definition hashed_strings ::
  "py_runtime \<Rightarrow> definitions \<Rightarrow> string \<Rightarrow> event_type \<Rightarrow> (string \<times> string) list \<Rightarrow> string set" where
  "hashed_strings rt d EventTypeName et EventObjects =
     set (List.map_filter (hashed_string rt d EventTypeName et) EventObjects)"

definition hashable ::
  "py_runtime \<Rightarrow> definitions \<Rightarrow> string \<Rightarrow> event_type \<Rightarrow> (string \<times> string) list \<Rightarrow> bool" where
  "hashable rt d EventTypeName et EventObjects =
     (\<forall>EventObject \<in> set EventObjects.
        skipped d EventTypeName et (fst EventObject)
        \<or> hashed_string rt d EventTypeName et EventObject \<noteq> None)"

text \<open>
  Steps 2 and 3: the strings of \<open>S\<close> in ascending order, joined with newlines behind the
  name of the event type; the content follows when the event type is not unique. Version 3
  puts the URL of the source in front.
\<close>

definition preimage_v2 :: "event_type \<Rightarrow> string \<Rightarrow> string set \<Rightarrow> string \<Rightarrow> string" where
  "preimage_v2 et EventTypeName S EventContent =
     (if unique et
      then EventTypeName @ [CHR 0x0A] @ py_join [CHR 0x0A] (sorted_list_of_set S)
      else EventTypeName @ [CHR 0x0A] @ py_join [CHR 0x0A] (sorted_list_of_set S)
             @ [CHR 0x0A] @ EventContent)"

definition preimage_v3 :: "event_type \<Rightarrow> string \<Rightarrow> string \<Rightarrow> string set \<Rightarrow> string \<Rightarrow> string" where
  "preimage_v3 et SourceUrl EventTypeName S EventContent =
     SourceUrl @ [CHR 0x0A] @ preimage_v2 et EventTypeName S EventContent"


subsection \<open>Normalization\<close>

text \<open>
  The data types whose normalization prints a binary floating point number: \<open>timestamp\<close>,
  and every \<open>number\<close> type that is not one of the five integer types (\<open>decimal\<close>, \<open>float\<close>,
  \<open>double\<close>, and \<open>hex\<close>, which falls into the branch of \<open>float\<close>).
\<close>

definition formats_float :: "string list \<Rightarrow> bool" where
  "formats_float dt =
     (case dt of
        [] \<Rightarrow> False
      | t # r \<Rightarrow>
          t = ''timestamp''
          \<or> (t = ''number''
              \<and> (case r of
                    [] \<Rightarrow> False
                  | k # _ \<Rightarrow> k \<notin> {''tinyint'', ''smallint'', ''mediumint'', ''int'', ''bigint''})))"

text \<open>A decimal digit, which is no whitespace, sign or dot.\<close>

definition plain_digit :: "char \<Rightarrow> bool" where
  "plain_digit c =
     (is_digit c \<and> \<not> is_space c \<and> c \<noteq> CHR ''-'' \<and> c \<noteq> CHR ''+'' \<and> c \<noteq> CHR ''.'')"


section \<open>Concrete registries and events\<close>

text \<open>
  A run time for concrete inputs: a set is iterated in ascending order, and every function
  of binary or decimal floating point raises.
\<close>

definition sorted_runtime :: py_runtime where
  "sorted_runtime =
     \<lparr>set_iter = sorted_list_of_set, float_extreme = (\<lambda>_ _ _. None),
      decimal_extreme = (\<lambda>_ _ _. None), format_decimal = (\<lambda>_ _. None),
      format_float = (\<lambda>_. None)\<rparr>"

text \<open>The state a sequence of calls leaves behind, stopping at the first exception.\<close>

fun calls :: "update list \<Rightarrow> update" where
  "calls [] = check (Inr ())"
| "calls (f # fs) = and_then f (calls fs)"

definition event_type_tag :: "string \<Rightarrow> attrs" where
  "event_type_tag name =
     [(''name'', name), (''description'', ''an event''), (''classlist'', ''test''),
      (''reporter-short'', ''short''), (''reporter-long'', ''long'')]"

definition property_tag :: "string \<Rightarrow> string \<Rightarrow> attrs \<Rightarrow> attrs" where
  "property_tag name object_type extra =
     [(''name'', name), (''description'', ''a property''), (''object-type'', object_type)] @ extra"

definition object_type_tag :: "string \<Rightarrow> string \<Rightarrow> attrs" where
  "object_type_tag name data_type =
     [(''name'', name), (''description'', ''an object type''), (''data-type'', data_type)]"

text \<open>
  The event type of scenario S4: \<open>a\<close> (merge add), \<open>m\<close> (merge min, \<open>number:int\<close>),
  \<open>r\<close> (merge replace) and \<open>u\<close> (unique); beside it an event type \<open>plain\<close> without a unique
  property, whose property \<open>f\<close> is of data type \<open>number:float\<close>; both as their
  registration leaves them in the registry.
\<close>

definition S4_event_type :: event_type where
  "S4_event_type =
     \<lparr>attributes = event_type_tag ''e'',
      properties =
        [''a'' \<mapsto> stored_attributes (property_tag ''a'' ''text'' [(''merge'', ''add'')]),
         ''m'' \<mapsto> stored_attributes (property_tag ''m'' ''count'' [(''merge'', ''min'')]),
         ''r'' \<mapsto> stored_attributes (property_tag ''r'' ''text'' [(''merge'', ''replace'')]),
         ''u'' \<mapsto> stored_attributes
            (property_tag ''u'' ''text'' [(''unique'', ''true''), (''merge'', ''match'')])],
      unique_properties = {''u''}, mandatory_properties = {''m'', ''u''},
      singleton_properties = {''m'', ''r'', ''u''}, parentmapping = Map.empty,
      relations = Map.empty, related_properties = {}, unique = True, parent = None\<rparr>"

definition plain_event_type :: event_type where
  "plain_event_type =
     \<lparr>attributes = event_type_tag ''plain'',
      properties =
        [''a'' \<mapsto> stored_attributes (property_tag ''a'' ''text'' [(''merge'', ''add'')]),
         ''f'' \<mapsto> stored_attributes (property_tag ''f'' ''ratio'' [(''merge'', ''add'')])],
      unique_properties = {}, mandatory_properties = {}, singleton_properties = {},
      parentmapping = Map.empty, relations = Map.empty, related_properties = {},
      unique = False, parent = None\<rparr>"

definition S4_definitions :: definitions where
  "S4_definitions =
     \<lparr>EventTypes = [''e'' \<mapsto> S4_event_type, ''plain'' \<mapsto> plain_event_type],
      ObjectTypes =
        [''text'' \<mapsto> object_type_tag ''text'' ''string:0:cs'',
         ''count'' \<mapsto> object_type_tag ''count'' ''number:int'',
         ''ratio'' \<mapsto> object_type_tag ''ratio'' ''number:float''],
      ObjectTypeEventTypes =
        [''text'' \<mapsto> {''e'', ''plain''}, ''count'' \<mapsto> {''e''}, ''ratio'' \<mapsto> {''plain''}],
      EventTypeClasses = [''test'' \<mapsto> {''e'', ''plain''}],
      RequiredObjectTypes = {''text'', ''count'', ''ratio''},
      EntityProperties = [''e'' \<mapsto> {}, ''plain'' \<mapsto> {}],
      EventTypeNames = [''e'', ''plain''],
      PropertyNames = [''e'' \<mapsto> [''a'', ''m'', ''r'', ''u''], ''plain'' \<mapsto> [''a'', ''f'']],
      PropertyRelations = [''e'' \<mapsto> [], ''plain'' \<mapsto> []],
      ObjectTypeNames = [''text'', ''count'', ''ratio'']\<rparr>"

definition S4_A :: objects where
  "S4_A = [''a'' \<mapsto> [''x''], ''m'' \<mapsto> [''5''], ''r'' \<mapsto> [''old''], ''u'' \<mapsto> [''k'']]"

definition S4_B :: objects where
  "S4_B = [''a'' \<mapsto> [''y''], ''m'' \<mapsto> [''3''], ''r'' \<mapsto> [''new''], ''u'' \<mapsto> [''k'']]"

definition S4_merged :: objects where
  "S4_merged =
     [''a'' \<mapsto> [''x'', ''y''], ''m'' \<mapsto> [''3''], ''r'' \<mapsto> [''new''], ''u'' \<mapsto> [''k'']]"

text \<open>
  An event type with a timestamp property \<open>t\<close> and an integer property \<open>n\<close>, both merged
  with \<open>min\<close>, and a unique property \<open>u\<close>.
\<close>

definition least_event_type :: event_type where
  "least_event_type =
     \<lparr>attributes = event_type_tag ''e'',
      properties =
        [''t'' \<mapsto> stored_attributes (property_tag ''t'' ''time'' [(''merge'', ''min'')]),
         ''n'' \<mapsto> stored_attributes (property_tag ''n'' ''count'' [(''merge'', ''min'')]),
         ''u'' \<mapsto> stored_attributes (property_tag ''u'' ''text'' [(''unique'', ''true'')])],
      unique_properties = {''u''}, mandatory_properties = {''t'', ''n''},
      singleton_properties = {''t'', ''n''}, parentmapping = Map.empty,
      relations = Map.empty, related_properties = {}, unique = True, parent = None\<rparr>"

definition least_definitions :: definitions where
  "least_definitions =
     \<lparr>EventTypes = [''e'' \<mapsto> least_event_type],
      ObjectTypes =
        [''text'' \<mapsto> object_type_tag ''text'' ''string:0:cs'',
         ''time'' \<mapsto> object_type_tag ''time'' ''timestamp'',
         ''count'' \<mapsto> object_type_tag ''count'' ''number:int''],
      ObjectTypeEventTypes =
        [''text'' \<mapsto> {''e''}, ''time'' \<mapsto> {''e''}, ''count'' \<mapsto> {''e''}],
      EventTypeClasses = [''test'' \<mapsto> {''e''}],
      RequiredObjectTypes = {''text'', ''time'', ''count''},
      EntityProperties = [''e'' \<mapsto> {}],
      EventTypeNames = [''e''],
      PropertyNames = [''e'' \<mapsto> [''t'', ''n'', ''u'']],
      PropertyRelations = [''e'' \<mapsto> []],
      ObjectTypeNames = [''text'', ''time'', ''count'']\<rparr>"

text \<open>
  Two events of the event type \<open>plain\<close> that differ in the order of their objects, in a
  repeated object and in the value of the floating property \<open>f\<close>.
\<close>

definition plain_objects_1 :: "(string \<times> string) list" where
  "plain_objects_1 = [(''a'', ''x''), (''f'', ''1.5''), (''a'', ''y''), (''a'', ''x'')]"

definition plain_objects_2 :: "(string \<times> string) list" where
  "plain_objects_2 = [(''a'', ''y''), (''f'', ''2.5''), (''a'', ''x'')]"

definition least_A :: objects where
  "least_A = [''t'' \<mapsto> [''9.000000''], ''n'' \<mapsto> [''9''], ''u'' \<mapsto> [''k'']]"

definition least_B :: objects where
  "least_B = [''t'' \<mapsto> [''10.000000''], ''n'' \<mapsto> [''10''], ''u'' \<mapsto> [''k'']]"

text \<open>Two stores: the events of S4 behind the references 0 and 1, and the merged event behind 0.\<close>

definition S4_store :: store where
  "S4_store = (\<lambda>_. Map.empty)(0 := S4_A, 1 := S4_B)"

definition merged_store :: store where
  "merged_store = (\<lambda>_. Map.empty)(0 := S4_merged, 1 := S4_B)"

text \<open>
  An event type whose parent maps the child property \<open>c\<close> to the parent property \<open>p\<close>;
  then the property \<open>c\<close> is added, once with \<open>merge="drop"\<close> written out and once without a
  \<open>merge\<close> attribute, whose default is \<open>drop\<close>.
\<close>

definition child_with_parent :: update where
  "child_with_parent =
     calls [AddEventType ''child'' (event_type_tag ''child''),
            SetEventTypeParent ''child''
              [(''eventtype'', ''parent''), (''propertymap'', ''c:p'')]]"

definition child_explicit_drop :: "unit result \<times> definitions" where
  "child_explicit_drop =
     calls [child_with_parent,
            AddProperty ''child'' ''c'' (property_tag ''c'' ''text'' [(''merge'', ''drop'')])]
       empty_definitions"

definition child_default_drop :: "unit result \<times> definitions" where
  "child_default_drop =
     calls [child_with_parent, AddProperty ''child'' ''c'' (property_tag ''c'' ''text'' [])]
       empty_definitions"

text \<open>
  An event type without a unique property whose property \<open>x\<close> holds hexadecimal numbers of
  two digits.
\<close>

definition hex_event_type :: event_type where
  "hex_event_type =
     \<lparr>attributes = event_type_tag ''h'',
      properties =
        [''x'' \<mapsto> stored_attributes (property_tag ''x'' ''code'' [(''merge'', ''add'')])],
      unique_properties = {}, mandatory_properties = {}, singleton_properties = {},
      parentmapping = Map.empty, relations = Map.empty, related_properties = {},
      unique = False, parent = None\<rparr>"

definition hex_definitions :: definitions where
  "hex_definitions =
     \<lparr>EventTypes = [''h'' \<mapsto> hex_event_type],
      ObjectTypes = [''code'' \<mapsto> object_type_tag ''code'' ''number:hex:2''],
      ObjectTypeEventTypes = [''code'' \<mapsto> {''h''}],
      EventTypeClasses = [''test'' \<mapsto> {''h''}],
      RequiredObjectTypes = {''code''},
      EntityProperties = [''h'' \<mapsto> {}],
      EventTypeNames = [''h''],
      PropertyNames = [''h'' \<mapsto> [''x'']],
      PropertyRelations = [''h'' \<mapsto> []],
      ObjectTypeNames = [''code'']\<rparr>"


section \<open>Results\<close>

subsection \<open>Exceptions as values\<close>

lemma bind_result_Inr:
  "bind_result r f = Inr y \<longleftrightarrow> (\<exists>v. r = Inr v \<and> f v = Inr y)"
  by (cases r) (simp_all add: bind_result_def)

lemma bind_result_Inl:
  "bind_result r f = Inl e \<longleftrightarrow> r = Inl e \<or> (\<exists>v. r = Inr v \<and> f v = Inl e)"
  by (cases r) (simp_all add: bind_result_def)

lemma subscript_Inr: "subscript m k = Inr v \<longleftrightarrow> m k = Some v"
  by (simp add: subscript_def split: option.splits)

lemma subscript_not_edxml: "subscript m k \<noteq> Inl (EDXMLError msg)"
  by (simp add: subscript_def split: option.splits)

lemma attr_not_edxml: "attr a k \<noteq> Inl (EDXMLError msg)"
  by (simp add: attr_def subscript_not_edxml)


subsection \<open>MergeEvents: the three dictionaries\<close>











lemma outcome_MergeEvents:
  "outcome (MergeEvents rt d n A B) = map_sum id snd (merge_targets rt d n A B)"
  by (auto simp: MergeEvents_def split: sum.splits prod.splits)

lemma ObjectsA_unchanged:
  "outcome (MergeEvents rt d n A B) \<noteq> Inr True \<Longrightarrow> ObjectsA (MergeEvents rt d n A B) = A"
  by (auto simp: MergeEvents_def split: sum.splits prod.splits if_splits)


subsection \<open>MergeEvents: the exceptions it raises\<close>

lemma GetPropertyObjectType_not_edxml:
  "EventTypes d n = Some et \<Longrightarrow> properties et p = Some a
     \<Longrightarrow> GetPropertyObjectType d n p \<noteq> Inl (EDXMLError msg)"
  by (simp add: GetPropertyObjectType_def attr_not_edxml)

lemma GetObjectTypeDataType_not_edxml: "GetObjectTypeDataType d ot \<noteq> Inl (EDXMLError msg)"
  by (auto simp: GetObjectTypeDataType_def bind_result_Inl subscript_not_edxml attr_not_edxml)

lemma extreme_of_not_edxml: "extreme_of least V \<noteq> Inl (EDXMLError msg)"
  by (simp add: extreme_of_def)

lemma merge_extreme_not_edxml:
  "EventTypes d n = Some et \<Longrightarrow> properties et p = Some a
     \<Longrightarrow> merge_extreme rt d n p least src tgt \<noteq> Inl (EDXMLError msg)"
  by (auto simp: merge_extreme_def bind_result_Inl GetPropertyObjectType_not_edxml
        GetObjectTypeDataType_not_edxml extreme_of_not_edxml index_def py_str_def library_def
        ints_of_def Let_def split: if_splits option.splits)

lemma merge_property_not_edxml:
  "EventTypes d n = Some et \<Longrightarrow> merge_property rt d n et p src tgt \<noteq> Inl (EDXMLError msg)"
  by (auto simp: merge_property_def bind_result_Inl subscript_not_edxml subscript_Inr
        attr_not_edxml merge_extreme_not_edxml split: if_splits)

lemma merge_loop_not_edxml:
  "EventTypes d n = Some et \<Longrightarrow> merge_loop rt d n et Source ps T \<noteq> Inl (EDXMLError msg)"
  by (induction ps arbitrary: T)
     (auto simp: bind_result_Inl subscript_not_edxml merge_property_not_edxml)

lemma replace_loop_not_edxml: "replace_loop et ps T \<noteq> Inl (EDXMLError msg)"
  by (induction ps arbitrary: T) (auto simp: bind_result_Inl subscript_not_edxml attr_not_edxml)

lemma EventUpdated_not_edxml: "EventUpdated Original Target ps \<noteq> Inl (EDXMLError msg)"
  by (induction ps) (auto simp: bind_result_Inl subscript_not_edxml)

text \<open>
  C9. Called for an event type of the registry that is not unique, \<open>MergeEvents\<close> raises the
  \<open>EDXMLError\<close> "MergeEvent was called for event type ..., which is not a unique event
  type"; called for a unique event type it raises no \<open>EDXMLError\<close> at all.
\<close>

theorem MergeEvents_UnsupportedOperation:
  assumes "EventTypes d n = Some et"
  shows "(\<not> unique et \<longrightarrow> outcome (MergeEvents rt d n A B) = Inl (EDXMLError (MergeNotUnique n)))
       \<and> (unique et \<longrightarrow> (\<forall>msg. outcome (MergeEvents rt d n A B) \<noteq> Inl (EDXMLError msg)))"
proof (intro conjI impI allI)
  assume "\<not> unique et"
  then show "outcome (MergeEvents rt d n A B) = Inl (EDXMLError (MergeNotUnique n))"
    using assms by (simp add: outcome_MergeEvents merge_targets_def subscript_def bind_result_def)
next
  fix msg assume u: "unique et"
  have "merge_targets rt d n A B \<noteq> Inl (EDXMLError msg)"
    using assms u
    by (auto simp: merge_targets_def bind_result_Inl subscript_Inr subscript_not_edxml Let_def
          GetEventTypeProperties_def merge_loop_not_edxml replace_loop_not_edxml
          EventUpdated_not_edxml)
  then show "outcome (MergeEvents rt d n A B) \<noteq> Inl (EDXMLError msg)"
    by (cases "merge_targets rt d n A B") (auto simp: outcome_MergeEvents)
qed

theorem MergeEvents_UnsupportedOperation_witness:
  "EventTypes S4_definitions ''plain'' = Some plain_event_type \<and> \<not> unique plain_event_type
   \<and> outcome (MergeEvents sorted_runtime S4_definitions ''plain'' S4_A S4_B)
       = Inl (EDXMLError (MergeNotUnique ''plain''))
   \<and> EventTypes S4_definitions ''e'' = Some S4_event_type \<and> unique S4_event_type
   \<and> (\<forall>msg. outcome (MergeEvents sorted_runtime S4_definitions ''e'' S4_A S4_B)
         \<noteq> Inl (EDXMLError msg))"
proof -
  have p: "EventTypes S4_definitions ''plain'' = Some plain_event_type"
    and e: "EventTypes S4_definitions ''e'' = Some S4_event_type"
    by (simp_all add: S4_definitions_def)
  have u: "\<not> unique plain_event_type" "unique S4_event_type"
    by (simp_all add: plain_event_type_def S4_event_type_def)
  show ?thesis
    using p e u MergeEvents_UnsupportedOperation [OF p, of sorted_runtime S4_A S4_B]
      MergeEvents_UnsupportedOperation [OF e, of sorted_runtime S4_A S4_B]
    by simp
qed

text \<open>
  C10. A call of \<open>MergeEvents\<close> on the dictionaries behind two distinct references leaves
  the dictionary of \<open>EventObjectsB\<close>, and every dictionary but that of \<open>EventObjectsA\<close>, as it
  was; when the call returns false, and also when it raises, the dictionary of
  \<open>EventObjectsA\<close> is as it was too: the store changes only when the call returns true.
\<close>

theorem MergeEvents_frame:
  "(a \<noteq> b \<longrightarrow> snd (MergeEvents_call rt d n a b h) b = h b)
   \<and> (\<forall>r. r \<noteq> a \<longrightarrow> snd (MergeEvents_call rt d n a b h) r = h r)
   \<and> (fst (MergeEvents_call rt d n a b h) = Inr False \<longrightarrow> snd (MergeEvents_call rt d n a b h) = h)
   \<and> (snd (MergeEvents_call rt d n a b h) \<noteq> h \<longrightarrow> fst (MergeEvents_call rt d n a b h) = Inr True)"
proof -
  have "fst (MergeEvents_call rt d n a b h) \<noteq> Inr True \<Longrightarrow> snd (MergeEvents_call rt d n a b h) = h"
    using ObjectsA_unchanged [of rt d n "h a" "h b"] by (auto simp: MergeEvents_call_def Let_def)
  then show ?thesis by (auto simp: MergeEvents_call_def Let_def)
qed

theorem MergeEvents_frame_witness:
  "(0::nat) \<noteq> 1
   \<and> snd (MergeEvents_call sorted_runtime S4_definitions ''e'' 0 1 S4_store) 1 = S4_store 1
   \<and> fst (MergeEvents_call sorted_runtime S4_definitions ''e'' 0 1 merged_store) = Inr False
   \<and> snd (MergeEvents_call sorted_runtime S4_definitions ''e'' 0 1 merged_store) = merged_store
   \<and> snd (MergeEvents_call sorted_runtime S4_definitions ''e'' 0 1 S4_store) \<noteq> S4_store
   \<and> fst (MergeEvents_call sorted_runtime S4_definitions ''e'' 0 1 S4_store) = Inr True"
proof -
  have f: "fst (MergeEvents_call sorted_runtime S4_definitions ''e'' 0 1 merged_store) = Inr False"
    by code_simp
  have "snd (MergeEvents_call sorted_runtime S4_definitions ''e'' 0 1 S4_store) 0 ''r''
          \<noteq> S4_store 0 ''r''"
    by code_simp
  then have c: "snd (MergeEvents_call sorted_runtime S4_definitions ''e'' 0 1 S4_store) \<noteq> S4_store"
    by auto
  show ?thesis
    using f c MergeEvents_frame [of 0 1 sorted_runtime S4_definitions "''e''" S4_store]
      MergeEvents_frame [of 0 1 sorted_runtime S4_definitions "''e''" merged_store]
    by simp
qed



text \<open>
  C3. For a timestamp property merged with \<open>min\<close> the method keeps the smallest of the
  strings: of \<open>9.000000\<close> and \<open>10.000000\<close> it keeps \<open>10.000000\<close>, the larger number. For the
  integer property beside it, merged with \<open>min\<close> as well, the values \<open>9\<close> and \<open>10\<close> are
  converted to numbers first and \<open>9\<close> is kept.
\<close>

theorem MergeEvents_min_timestamp_is_lexicographic:
  "outcome (MergeEvents sorted_runtime least_definitions ''e'' least_A least_B) = Inr True
   \<and> ObjectsA (MergeEvents sorted_runtime least_definitions ''e'' least_A least_B) ''t''
       = Some [''10.000000'']
   \<and> ObjectsA (MergeEvents sorted_runtime least_definitions ''e'' least_A least_B) ''n''
       = Some [''9'']"
  by code_simp


subsection \<open>ValidateObject on hashlinks\<close>

text \<open>
  C8. For the data type \<open>hashlink\<close> the method \<open>ValidateObject\<close> returns without an error
  for every value: the test \<open>re.match(self.HashlinkPattern, Value) == False\<close> compares a
  match object or \<open>None\<close> with \<open>False\<close> and never holds. The value \<open>xyz\<close>, which the
  pattern does not match, is accepted like any other.
\<close>

theorem ValidateObject_hashlink_never_raises:
  "ValidateObject rt Value ObjectTypeName ''hashlink'' = Inr ()
   \<and> re_match HashlinkPattern ''xyz'' = None
   \<and> ValidateObject rt ''xyz'' ObjectTypeName ''hashlink'' = Inr ()"
proof -
  have s: "py_split CHR '':'' ''hashlink'' = [''hashlink'']" by simp
  have v: "ValidateObject rt V ObjectTypeName ''hashlink'' = Inr ()" for V
    unfolding ValidateObject_def s
    by (simp add: index_def bind_result_def validate_hashlink_def raise_if_def equals_False_def)
  have m: "re_match HashlinkPattern ''xyz'' = None" by code_simp
  show ?thesis using v m by simp
qed

subsection \<open>CheckEdxmlEntityConsistency\<close>

lemma for_each_Inr: "for_each body xs = Inr () \<longleftrightarrow> (\<forall>x \<in> set xs. body x = Inr ())"
  by (induction xs) (auto simp: bind_result_def split: sum.splits)

lemma map_of_keys: "a \<in> set (keys al) \<Longrightarrow> \<exists>v. map_of al a = Some v"
  by (metis keys_def map_of_eq_None_iff not_None_eq set_map)

lemma check_retained_Inr:
  assumes "a \<in> set (keys cur)" "a \<in> set (keys upd)"
  shows "check_retained Entity desc cur upd a = Inr () \<longleftrightarrow> map_of cur a = map_of upd a"
  using map_of_keys [OF assms(1)] map_of_keys [OF assms(2)]
  by (auto simp: check_retained_def attr_def subscript_def bind_result_def split: if_splits)

lemma check_added_Inr:
  assumes "a \<in> set (keys upd)"
  shows "check_added Entity desc upd a = Inr ()
           \<longleftrightarrow> (\<exists>v. map_of upd a = Some v \<and> optional_with_default Entity a v)"
  using map_of_keys [OF assms]
  by (auto simp: check_added_def optional_with_default_def attr_def subscript_def
        bind_result_def split: sum.splits option.splits if_splits)

lemma check_removed_Inr:
  assumes "a \<in> set (keys cur)"
  shows "check_removed Entity desc cur a = Inr ()
           \<longleftrightarrow> (\<exists>v. map_of cur a = Some v \<and> optional_with_default Entity a v)"
  using map_of_keys [OF assms]
  by (auto simp: check_removed_def optional_with_default_def attr_def subscript_def
        bind_result_def split: sum.splits option.splits if_splits)

lemma CheckEdxmlEntityConsistency_Inr:
  "CheckEdxmlEntityConsistency Entity desc cur upd = Inr () \<longleftrightarrow> definitions_agree Entity cur upd"
proof -
  have r: "for_each (check_retained Entity desc cur upd)
             (filter (\<lambda>k. k \<in> set (keys cur)) (remdups (keys upd))) = Inr ()
           \<longleftrightarrow> (\<forall>a \<in> set (keys upd) \<inter> set (keys cur). map_of cur a = map_of upd a)"
    by (auto simp: for_each_Inr check_retained_Inr)
  have a: "for_each (check_added Entity desc upd)
             (filter (\<lambda>k. k \<notin> set (keys cur)) (remdups (keys upd))) = Inr ()
           \<longleftrightarrow> (\<forall>a \<in> set (keys upd) - set (keys cur).
                  \<exists>v. map_of upd a = Some v \<and> optional_with_default Entity a v)"
    by (auto simp: for_each_Inr check_added_Inr)
  have m: "for_each (check_removed Entity desc cur)
             (filter (\<lambda>k. k \<notin> set (keys upd)) (remdups (keys cur))) = Inr ()
           \<longleftrightarrow> (\<forall>a \<in> set (keys cur) - set (keys upd).
                  \<exists>v. map_of cur a = Some v \<and> optional_with_default Entity a v)"
    by (auto simp: for_each_Inr check_removed_Inr)
  have "CheckEdxmlEntityConsistency Entity desc cur upd = Inr ()
        \<longleftrightarrow> for_each (check_retained Entity desc cur upd)
              (filter (\<lambda>k. k \<in> set (keys cur)) (remdups (keys upd))) = Inr ()
          \<and> for_each (check_added Entity desc upd)
              (filter (\<lambda>k. k \<notin> set (keys cur)) (remdups (keys upd))) = Inr ()
          \<and> for_each (check_removed Entity desc cur)
              (filter (\<lambda>k. k \<notin> set (keys upd)) (remdups (keys cur))) = Inr ()"
    by (auto simp: CheckEdxmlEntityConsistency_def Let_def bind_result_def split: sum.splits)
  then show ?thesis
    unfolding r a m by (simp add: definitions_agree_def)
qed

text \<open>
  C6. The consistency check of a definition against the one registered before raises
  unless the two agree: attributes of both with equal values, attributes of the new
  definition alone optional and at their default, attributes of the old definition alone
  optional and at their default. When they agree the check returns.
\<close>

theorem CheckEdxmlEntityConsistency_fails_unless_agree:
  "(\<not> definitions_agree Entity CurrentAttributes UpdatedAttributes \<longrightarrow>
      (\<exists>e. CheckEdxmlEntityConsistency Entity EntityDescription CurrentAttributes
              UpdatedAttributes = Inl e))
   \<and> (definitions_agree Entity CurrentAttributes UpdatedAttributes \<longrightarrow>
        CheckEdxmlEntityConsistency Entity EntityDescription CurrentAttributes
          UpdatedAttributes = Inr ())"
  using CheckEdxmlEntityConsistency_Inr [of Entity EntityDescription CurrentAttributes
      UpdatedAttributes]
  by (cases "CheckEdxmlEntityConsistency Entity EntityDescription CurrentAttributes
        UpdatedAttributes") auto

theorem CheckEdxmlEntityConsistency_fails_unless_agree_witness:
  "\<not> definitions_agree ''eventtype'' (event_type_tag ''e'')
        (AList.update ''description'' ''another event'' (event_type_tag ''e''))
   \<and> CheckEdxmlEntityConsistency ''eventtype'' ''e'' (event_type_tag ''e'')
        (AList.update ''description'' ''another event'' (event_type_tag ''e''))
       = Inl (EDXMLError (AttributeMismatch ''description'' ''eventtype'' ''e''))
   \<and> definitions_agree ''eventtype'' (event_type_tag ''e'')
        (event_type_tag ''e'' @ [(''display-name'', ''/'')])
   \<and> CheckEdxmlEntityConsistency ''eventtype'' ''e'' (event_type_tag ''e'')
        (event_type_tag ''e'' @ [(''display-name'', ''/'')]) = Inr ()"
proof -
  have f: "CheckEdxmlEntityConsistency ''eventtype'' ''e'' (event_type_tag ''e'')
        (AList.update ''description'' ''another event'' (event_type_tag ''e''))
       = Inl (EDXMLError (AttributeMismatch ''description'' ''eventtype'' ''e''))"
    by code_simp
  have g: "CheckEdxmlEntityConsistency ''eventtype'' ''e'' (event_type_tag ''e'')
        (event_type_tag ''e'' @ [(''display-name'', ''/'')]) = Inr ()"
    by code_simp
  show ?thesis
    using f g
      CheckEdxmlEntityConsistency_fails_unless_agree [of "''eventtype''" "event_type_tag ''e''"
        "AList.update ''description'' ''another event'' (event_type_tag ''e'')" "''e''"]
      CheckEdxmlEntityConsistency_fails_unless_agree [of "''eventtype''" "event_type_tag ''e''"
        "event_type_tag ''e'' @ [(''display-name'', ''/'')]" "''e''"]
    by auto
qed

subsection \<open>The derived sets of an event type\<close>

text \<open>
  C7. A property that appears in the parent map of its event type and is registered
  without a \<open>merge\<close> attribute is not put into \<open>singleton-properties\<close>: the test for the
  parent map stands inside the branch \<open>if 'merge' in Attributes\<close>. Registered with
  \<open>merge="drop"\<close>, the documented default of the attribute, the same property is.
\<close>

theorem AddProperty_parent_map_without_merge:
  "fst child_default_drop = Inr ()
   \<and> map_option (\<lambda>et. parentmapping et ''c'') (EventTypes (snd child_default_drop) ''child'')
       = Some (Some ''p'')
   \<and> map_option singleton_properties (EventTypes (snd child_default_drop) ''child'') = Some {}
   \<and> fst child_explicit_drop = Inr ()
   \<and> map_option singleton_properties (EventTypes (snd child_explicit_drop) ''child'')
       = Some {''c''}"
  by code_simp


subsection \<open>The sticky hash\<close>

lemma py_split_not_Nil: "py_split sep s \<noteq> []"
  by (induction s) (auto split: list.splits)

lemma object_string_known:
  assumes "EventTypes d n = Some et" "\<not> (unique et \<and> p \<notin> unique_properties et)"
    and "GetPropertyObjectType d n p = Inr ot" "GetObjectTypeDataType d ot = Inr t"
    and "py_split CHR '':'' t = x # xs"
  shows "object_string rt d n (p, v) =
    (if x = ''number'' \<and> xs = [] then Inl IndexError
     else if x = ''number'' \<and> (hd xs = ''float'' \<or> hd xs = ''double'') then Inr None
     else (case NormalizeObject rt v (x # xs) of
             Inl (EDXMLError m) \<Rightarrow> Inl (EDXMLError (InvalidValueInProperty p n v))
           | Inl e \<Rightarrow> Inl e
           | Inr nv \<Rightarrow> Inr (Some (p @ '':'' @ nv))))"
proof -
  have u: "EventTypeIsUnique d n = Inr (unique et)"
    "PropertyIsUnique d n p = Inr (p \<in> unique_properties et)"
    using assms(1)
    by (simp_all add: EventTypeIsUnique_def PropertyIsUnique_def subscript_def bind_result_def)
  show ?thesis
    using assms(2)
    by (cases xs; cases "x = ''number''")
       (simp_all add: object_string_def u assms(3,4,5) bind_result_def index_def Let_def)
qed

lemma NormalizeObject_number_only: "NormalizeObject rt v [''number''] = Inl IndexError"
  by (simp add: NormalizeObject_def index_def bind_result_def)

lemma object_string_Inr_iff:
  assumes "EventTypes d n = Some et"
  shows "object_string rt d n (p, v) = Inr s \<longleftrightarrow>
     (if skipped d n et p then s = None
      else \<exists>dt v'. data_type_of d n p = Some dt \<and> NormalizeObject rt v dt = Inr v'
             \<and> s = Some (p @ '':'' @ v'))"
proof (cases "unique et \<and> p \<notin> unique_properties et")
  case True
  then show ?thesis using assms
    by (auto simp: object_string_def skipped_def EventTypeIsUnique_def PropertyIsUnique_def
          subscript_def bind_result_def)
next
  case False
  have u: "EventTypeIsUnique d n = Inr (unique et)"
    "PropertyIsUnique d n p = Inr (p \<in> unique_properties et)"
    using assms
    by (simp_all add: EventTypeIsUnique_def PropertyIsUnique_def subscript_def bind_result_def)
  show ?thesis
  proof (cases "GetPropertyObjectType d n p")
    case (Inl e)
    then show ?thesis using False
      by (simp add: object_string_def u skipped_def floating_property_def data_type_of_def
            bind_result_def)
  next
    case ot: (Inr ot)
    show ?thesis
    proof (cases "GetObjectTypeDataType d ot")
      case (Inl e)
      then show ?thesis using False ot
        by (simp add: object_string_def u skipped_def floating_property_def data_type_of_def
              bind_result_def)
    next
      case t: (Inr t)
      obtain x xs where x: "py_split CHR '':'' t = x # xs"
        using py_split_not_Nil [of "CHR '':''" t] by (cases "py_split CHR '':'' t") auto
      have dt: "data_type_of d n p = Some (x # xs)"
        using ot t x by (simp add: data_type_of_def)
      have sk: "skipped d n et p
                  \<longleftrightarrow> x = ''number'' \<and> xs \<noteq> [] \<and> (hd xs = ''float'' \<or> hd xs = ''double'')"
        using False dt by (cases xs) (auto simp: skipped_def floating_property_def is_floating_def)
      show ?thesis
        unfolding object_string_known [OF assms False ot t x] sk dt
        by (cases xs) (auto simp: NormalizeObject_number_only split: sum.splits error.splits)
    qed
  qed
qed

lemma hashed_string_eq:
  assumes "EventTypes d n = Some et"
  shows "object_string rt d n obj = Inr s \<longleftrightarrow>
           (skipped d n et (fst obj) \<or> hashed_string rt d n et obj \<noteq> None)
           \<and> s = hashed_string rt d n et obj"
  using object_string_Inr_iff [OF assms, of rt "fst obj" "snd obj" s]
  by (cases obj) (auto simp: hashed_string_def split: option.splits sum.splits)

lemma object_strings_hashable:
  assumes "EventTypes d n = Some et"
  shows "hashable rt d n et objs \<Longrightarrow>
           object_strings rt d n objs S = Inr (S \<union> hashed_strings rt d n et objs)"
proof (induction objs arbitrary: S)
  case Nil
  then show ?case by (simp add: hashed_strings_def)
next
  case (Cons obj objs)
  from Cons.prems have h: "skipped d n et (fst obj) \<or> hashed_string rt d n et obj \<noteq> None"
    and r: "hashable rt d n et objs" by (auto simp: hashable_def)
  have o: "object_string rt d n obj = Inr (hashed_string rt d n et obj)"
    using hashed_string_eq [OF assms, of rt obj "hashed_string rt d n et obj"] h by simp
  show ?case
    using Cons.IH [OF r] o
    by (cases "hashed_string rt d n et obj") (auto simp: bind_result_def hashed_strings_def)
qed

lemma object_strings_not_hashable:
  assumes "EventTypes d n = Some et"
  shows "\<not> hashable rt d n et objs \<Longrightarrow> \<exists>e. object_strings rt d n objs S = Inl e"
proof (induction objs arbitrary: S)
  case Nil
  then show ?case by (simp add: hashable_def)
next
  case (Cons obj objs)
  show ?case
  proof (cases "object_string rt d n obj")
    case (Inl e)
    then show ?thesis by (simp add: bind_result_def)
  next
    case (Inr s)
    then have "skipped d n et (fst obj) \<or> hashed_string rt d n et obj \<noteq> None"
      using hashed_string_eq [OF assms, of rt obj s] by simp
    with Cons.prems have "\<not> hashable rt d n et objs" by (auto simp: hashable_def)
    from Cons.IH [OF this] Inr show ?thesis by (auto simp: bind_result_def)
  qed
qed

lemma hashes_hashable:
  assumes "EventTypes d n = Some et" "hashable rt d n et objs"
  shows "ComputeStickyHash rt d n objs content
           = Inr (sha1_hexdigest (utf8_encode
               (preimage_v2 et n (hashed_strings rt d n et objs) content)))"
    and "ComputeStickyHashV3 rt d n url objs content
           = Inr (sha1_hexdigest (utf8_encode
               (preimage_v3 et url n (hashed_strings rt d n et objs) content)))"
  using assms(1) object_strings_hashable [OF assms, of "{}"]
  by (simp_all add: ComputeStickyHash_def ComputeStickyHashV3_def preimage_v2_def
        preimage_v3_def sorted_strings_def EventTypeIsUnique_def subscript_def bind_result_def)

lemma hashes_not_hashable:
  assumes "EventTypes d n = Some et" "\<not> hashable rt d n et objs"
  shows "\<exists>e. ComputeStickyHash rt d n objs content = Inl e"
    and "\<exists>e. ComputeStickyHashV3 rt d n url objs content = Inl e"
  using object_strings_not_hashable [OF assms, of "{}"]
  by (auto simp: ComputeStickyHash_def ComputeStickyHashV3_def bind_result_def)

lemma hashes_unknown_event_type:
  assumes "EventTypes d n = None"
  shows "ComputeStickyHash rt d n objs content \<noteq> Inr h"
    and "ComputeStickyHashV3 rt d n url objs content \<noteq> Inr h"
  using assms
  by (auto simp: ComputeStickyHash_def ComputeStickyHashV3_def EventTypeIsUnique_def
        subscript_def bind_result_def split: sum.splits)







lemma set_map_filter: "set (List.map_filter f xs) = {y. \<exists>x \<in> set xs. f x = Some y}"
  by (induction xs) (auto simp: List.map_filter_simps split: option.splits)

lemma floating_is_skipped: "floating_property d n p \<Longrightarrow> skipped d n et p"
  by (simp add: skipped_def)

lemma hashed_string_not_floating:
  "hashed_string rt d n et obj = Some y \<Longrightarrow> \<not> floating_property d n (fst obj)"
  by (cases obj) (auto simp: hashed_string_def skipped_def split: if_splits)

lemma hashed_strings_without_floating:
  "hashed_strings rt d n et objs
     = {y. \<exists>obj \<in> set (filter (\<lambda>obj. \<not> floating_property d n (fst obj)) objs).
             hashed_string rt d n et obj = Some y}"
proof -
  have "(\<exists>obj \<in> set objs. hashed_string rt d n et obj = Some y)
        \<longleftrightarrow> (\<exists>obj \<in> set (filter (\<lambda>obj. \<not> floating_property d n (fst obj)) objs).
               hashed_string rt d n et obj = Some y)" for y
    using hashed_string_not_floating [of rt d n et _ y] by fastforce
  then show ?thesis
    unfolding hashed_strings_def set_map_filter by simp
qed

lemma hashable_without_floating:
  "hashable rt d n et objs
     \<longleftrightarrow> (\<forall>obj \<in> set (filter (\<lambda>obj. \<not> floating_property d n (fst obj)) objs).
            skipped d n et (fst obj) \<or> hashed_string rt d n et obj \<noteq> None)"
  unfolding hashable_def using floating_is_skipped [of d n _ et] by fastforce

text \<open>
  C2. Two events of one event type, source and content whose objects, the objects of
  floating properties set aside, form the same set of pairs (so that they differ in the
  order of the objects, in repeated objects and in floating values only) have the same
  sticky hash, in both versions: whenever one call returns a digest, the other returns
  the same digest.
\<close>

theorem sticky_hash_of_reordered_objects:
  assumes "set (filter (\<lambda>obj. \<not> floating_property d n (fst obj)) objs1)
         = set (filter (\<lambda>obj. \<not> floating_property d n (fst obj)) objs2)"
  shows "(ComputeStickyHash rt d n objs1 content = Inr h
            \<longleftrightarrow> ComputeStickyHash rt d n objs2 content = Inr h)
       \<and> (ComputeStickyHashV3 rt d n url objs1 content = Inr h
            \<longleftrightarrow> ComputeStickyHashV3 rt d n url objs2 content = Inr h)"
proof (cases "EventTypes d n")
  case None
  then show ?thesis
    using hashes_unknown_event_type [OF None] by simp
next
  case (Some et)
  have s: "hashed_strings rt d n et objs1 = hashed_strings rt d n et objs2"
    unfolding hashed_strings_without_floating assms ..
  have b: "hashable rt d n et objs1 \<longleftrightarrow> hashable rt d n et objs2"
    unfolding hashable_without_floating assms ..
  show ?thesis
  proof (cases "hashable rt d n et objs1")
    case True
    then have "hashable rt d n et objs2" using b by simp
    from hashes_hashable(1) [OF Some True, of content]
      hashes_hashable(2) [OF Some True, of url content]
      hashes_hashable(1) [OF Some this, of content]
      hashes_hashable(2) [OF Some this, of url content] s
    show ?thesis by simp
  next
    case False
    then have "\<not> hashable rt d n et objs2" using b by simp
    from hashes_not_hashable(1) [OF Some False, of content]
      hashes_not_hashable(2) [OF Some False, of url content]
      hashes_not_hashable(1) [OF Some this, of content]
      hashes_not_hashable(2) [OF Some this, of url content]
    show ?thesis by auto
  qed
qed

theorem sticky_hash_of_reordered_objects_witness:
  "set (filter (\<lambda>obj. \<not> floating_property S4_definitions ''plain'' (fst obj)) plain_objects_1)
     = set (filter (\<lambda>obj. \<not> floating_property S4_definitions ''plain'' (fst obj)) plain_objects_2)
   \<and> ComputeStickyHash sorted_runtime S4_definitions ''plain'' plain_objects_1 ''c''
       = Inr ''3b590ed6188494ea43f42153b4dadbb2a84997b5''
   \<and> ComputeStickyHash sorted_runtime S4_definitions ''plain'' plain_objects_2 ''c''
       = Inr ''3b590ed6188494ea43f42153b4dadbb2a84997b5''
   \<and> ComputeStickyHashV3 sorted_runtime S4_definitions ''plain'' ''/s'' plain_objects_1 ''c''
       = Inr ''cf252f52fe66679ef3d1f9aa2bb6e5f6f36f92dc''
   \<and> ComputeStickyHashV3 sorted_runtime S4_definitions ''plain'' ''/s'' plain_objects_2 ''c''
       = Inr ''cf252f52fe66679ef3d1f9aa2bb6e5f6f36f92dc''"
proof -
  have a: "set (filter (\<lambda>obj. \<not> floating_property S4_definitions ''plain'' (fst obj))
                  plain_objects_1)
         = set (filter (\<lambda>obj. \<not> floating_property S4_definitions ''plain'' (fst obj))
                  plain_objects_2)"
    by code_simp
  have r: "ComputeStickyHash sorted_runtime S4_definitions ''plain'' plain_objects_1 ''c''
             = Inr ''3b590ed6188494ea43f42153b4dadbb2a84997b5''"
    by code_simp
  have v: "ComputeStickyHashV3 sorted_runtime S4_definitions ''plain'' ''/s'' plain_objects_1 ''c''
             = Inr ''cf252f52fe66679ef3d1f9aa2bb6e5f6f36f92dc''"
    by code_simp
  show ?thesis
    using a r v
      sticky_hash_of_reordered_objects [OF a, where rt = sorted_runtime and content = "''c''"
        and url = "''/s''" and h = "''3b590ed6188494ea43f42153b4dadbb2a84997b5''"]
      sticky_hash_of_reordered_objects [OF a, where rt = sorted_runtime and content = "''c''"
        and url = "''/s''" and h = "''cf252f52fe66679ef3d1f9aa2bb6e5f6f36f92dc''"]
    by simp
qed


subsection \<open>NormalizeObject\<close>

lemma lower_char_idem: "lower_char (lower_char c) = lower_char c"
  by (auto simp: lower_char_def Let_def)

lemma py_lower_idem: "py_lower (py_lower s) = py_lower s"
  by (simp add: py_lower_def lower_char_idem)

lemma digit_chars:
  "list_all (\<lambda>n. plain_digit (char_of (48 + n)) \<and> of_char (char_of (48 + n)) - 48 = n)
     [0, 1, 2, 3, 4, 5, 6, 7, 8, 9 :: nat]"
  by code_simp

lemma digit_char:
  assumes "(n::nat) < 10"
  shows "plain_digit (char_of (48 + n))" and "of_char (char_of (48 + n)) - 48 = n"
proof -
  from assms have "n \<in> set [0, 1, 2, 3, 4, 5, 6, 7, 8, 9]" by simp presburger
  with digit_chars show "plain_digit (char_of (48 + n))"
    and "of_char (char_of (48 + n)) - 48 = n"
    unfolding list_all_iff by blast+
qed

lemma str_nat_digits:
  "str_nat n \<noteq> [] \<and> list_all plain_digit (str_nat n)
    \<and> foldl (\<lambda>a c. 10 * a + (of_char c - 48)) k (str_nat n) = k * 10 ^ length (str_nat n) + n"
proof (induction n arbitrary: k rule: str_nat.induct)
  case (1 n)
  show ?case
  proof (cases "n < 10")
    case True
    then show ?thesis
      using digit_char [OF True] by (subst (1 2 3 4) str_nat.simps) simp
  next
    case False
    then have m: "n mod 10 < 10" by simp
    have s: "str_nat n = str_nat (n div 10) @ [char_of (48 + n mod 10)]"
      using False by (subst str_nat.simps) simp
    show ?thesis
      unfolding s using "1.IH" [OF False] digit_char [OF m]
      by (simp add: algebra_simps)
  qed
qed

lemma py_strip_plain:
  assumes "s \<noteq> []" "\<not> is_space (hd s)" "\<not> is_space (last s)"
  shows "py_strip s = s"
proof -
  have a: "dropWhile is_space s = s" using assms(1,2) by (cases s) auto
  have "rev s \<noteq> []" "\<not> is_space (hd (rev s))" using assms(1,3) by (simp_all add: hd_rev)
  then have "dropWhile is_space (rev s) = rev s" by (cases "rev s") auto
  then show ?thesis by (simp add: py_strip_def a)
qed

lemma parse_digits_str_nat: "parse_digits (str_nat n) = Inr n"
proof -
  have "list_all is_digit (str_nat n)"
    using str_nat_digits [of n 0] by (auto simp: list_all_iff plain_digit_def)
  then show ?thesis
    using str_nat_digits [of n 0] by (simp add: parse_digits_def digits_value_def)
qed

lemma str_nat_ends:
  "plain_digit (hd (str_nat n))" "plain_digit (last (str_nat n))"
  using str_nat_digits [of n 0] by (auto simp: list_all_iff)

lemma py_int_str_int: "py_int (str_int i) = Inr i"
proof (cases "i < 0")
  case True
  have sp: "\<not> is_space CHR ''-''" by (simp add: is_space_def)
  have l: "\<not> is_space (last (CHR ''-'' # str_nat (nat (- i))))"
    using str_nat_ends(2) [of "nat (- i)"] str_nat_digits [of "nat (- i)" 0]
    by (simp add: plain_digit_def)
  have "py_strip (CHR ''-'' # str_nat (nat (- i))) = CHR ''-'' # str_nat (nat (- i))"
    using py_strip_plain [of "CHR ''-'' # str_nat (nat (- i))"] sp l by simp
  then show ?thesis
    using True by (simp add: py_int_def str_int_def parse_digits_str_nat bind_result_def)
next
  case False
  obtain c cs where c: "str_nat (nat i) = c # cs"
    using str_nat_digits [of "nat i" 0] by (cases "str_nat (nat i)") auto
  have pd: "plain_digit c" using str_nat_ends(1) [of "nat i"] c by simp
  have "py_strip (str_nat (nat i)) = str_nat (nat i)"
    using py_strip_plain [of "str_nat (nat i)"] str_nat_ends [of "nat i"] str_nat_digits [of "nat i" 0]
    by (simp add: plain_digit_def)
  then show ?thesis
    using False pd parse_digits_str_nat [of "nat i"] c
    by (simp add: py_int_def str_int_def bind_result_def plain_digit_def)
qed

lemma no_dot_str_int: "CHR ''.'' \<notin> set (str_int i)"
  using str_nat_digits [of "nat i" 0] str_nat_digits [of "nat (- i)" 0]
  by (auto simp: str_int_def list_all_iff plain_digit_def)

lemma py_split_no_sep: "sep \<notin> set u \<Longrightarrow> py_split sep u = [u]"
  by (induction u) auto

lemma py_split_append: "sep \<notin> set u \<Longrightarrow> py_split sep (u @ sep # r) = u # py_split sep r"
  by (induction u) auto

lemma normalize_ip_idem:
  assumes "normalize_ip v = Inr w"
  shows "normalize_ip w = Inr w"
proof -
  from assms obtain a b c d where
    w: "w = str_int a @ ''.'' @ str_int b @ ''.'' @ str_int c @ ''.'' @ str_int d"
    by (auto simp: normalize_ip_def Let_def bind_result_Inr split: sum.splits)
  have s: "py_split CHR ''.'' w = [str_int a, str_int b, str_int c, str_int d]"
    unfolding w by (simp add: py_split_append py_split_no_sep no_dot_str_int)
  show ?thesis
    unfolding normalize_ip_def s Let_def
    by (simp add: index_def bind_result_def py_int_str_int w)
qed

text \<open>
  For every data type whose normalization does not print a floating point number, a
  normalized value is its own normal form. For the remaining data types the normal form is
  what the run time prints for a \<open>float\<close>.
\<close>

lemma NormalizeObject_idempotent_apart_from_floats:
  assumes "\<not> formats_float dt" "NormalizeObject rt v dt = Inr w"
  shows "NormalizeObject rt w dt = Inr w"
proof (cases dt)
  case Nil
  then show ?thesis using assms(2) by (simp add: NormalizeObject_def index_def bind_result_def)
next
  case (Cons t r)
  consider (number) "t = ''number''" | (ip) "t = ''ip''" | (string) "t = ''string''"
    | (boolean) "t = ''boolean''"
    | (other) "t \<noteq> ''timestamp''" "t \<noteq> ''number''" "t \<noteq> ''ip''" "t \<noteq> ''string''"
        "t \<noteq> ''boolean''"
    using assms(1) Cons by (auto simp: formats_float_def)
  then show ?thesis
  proof cases
    case number
    then obtain k ks where r: "r = k # ks"
      and k: "k \<in> {''tinyint'', ''smallint'', ''mediumint'', ''int'', ''bigint''}"
      using assms Cons
      by (cases r) (auto simp: formats_float_def NormalizeObject_def index_def bind_result_def)
    from assms(2) obtain i where "w = str_int i"
      using Cons number r k
      by (auto simp: NormalizeObject_def index_def bind_result_Inr)
    then show ?thesis
      using Cons number r k
      by (auto simp: NormalizeObject_def index_def bind_result_def py_int_str_int)
  next
    case ip
    then show ?thesis
      using assms(2) Cons normalize_ip_idem [of v w]
      by (simp add: NormalizeObject_def index_def bind_result_def)
  next
    case string
    then show ?thesis
      using assms(2) Cons
      by (auto simp: NormalizeObject_def index_def bind_result_def py_lower_idem split: if_splits)
  next
    case boolean
    then show ?thesis
      using assms(2) Cons
      by (auto simp: NormalizeObject_def index_def bind_result_def py_lower_idem)
  next
    case other
    then show ?thesis
      using assms(2) Cons by (simp add: NormalizeObject_def index_def bind_result_def)
  qed
qed

lemma NormalizeObject_examples:
  "NormalizeObject rt ''192.168.001.001'' [''ip''] = Inr ''192.168.1.1''"
  "NormalizeObject rt ''TRUE'' [''boolean''] = Inr ''true''"
  by code_simp+

lemma NormalizeObject_hex_no_float_literal:
  "\<not> float_literal v \<Longrightarrow> NormalizeObject rt v (''number'' # ''hex'' # r) = Inl ValueError"
  by (simp add: NormalizeObject_def index_def bind_result_def)

text \<open>
  C5. The value \<open>ff\<close> is legal for the data type \<open>number:hex:2\<close>: the attribute grammar
  admits the data type and \<open>ValidateObject\<close> returns without an error. \<open>NormalizeObject\<close>
  has no branch for \<open>hex\<close>; the value reaches \<open>float(Value)\<close>, which raises \<open>ValueError\<close>
  because \<open>ff\<close> is no float literal. The value has no normal form, and the sticky hash of
  an event that carries it raises as well.
\<close>

theorem NormalizeObject_raises_on_legal_hex:
  "re_match DataTypePattern ''number:hex:2'' = Some ''number:hex:2''
   \<and> ValidateObject rt ''ff'' ObjectTypeName ''number:hex:2'' = Inr ()
   \<and> NormalizeObject rt ''ff'' (py_split CHR '':'' ''number:hex:2'') = Inl ValueError
   \<and> ComputeStickyHash rt hex_definitions ''h'' [(''x'', ''ff'')] ''c'' = Inl ValueError"
proof -
  have g: "re_match DataTypePattern ''number:hex:2'' = Some ''number:hex:2''"
    by code_simp
  have s: "py_split CHR '':'' ''number:hex:2'' = [''number'', ''hex'', ''2'']"
    by simp
  have h: "hex_decodes ''ff''" by code_simp
  have v: "ValidateObject rt ''ff'' ObjectTypeName ''number:hex:2'' = Inr ()"
    unfolding ValidateObject_def s
    using h by (simp add: index_def bind_result_def validate_number_def raise_if_def)
  have f: "\<not> float_literal ''ff''" by code_simp
  have n: "NormalizeObject rt ''ff'' (py_split CHR '':'' ''number:hex:2'') = Inl ValueError"
    unfolding s using NormalizeObject_hex_no_float_literal [OF f] .
  have c: "ComputeStickyHash rt hex_definitions ''h'' [(''x'', ''ff'')] ''c'' = Inl ValueError"
    by code_simp
  show ?thesis using g v n c by simp
qed


end
